theory Spec2Isabelle
  imports Main "HOL-Library.Multiset"
begin

section \<open>Bounded registry: the LimitedMap class of backend/sockets/chat.js\<close>

text \<open>
  \<^verbatim>\<open>class LimitedMap extends Map\<close> keeps the entries of a JavaScript Map, which iterates
  in insertion order and holds every key once, together with \<^verbatim>\<open>maxSize\<close> and two
  counters. The entries are an association list, oldest insertion first.
\<close>

record ('k, 'v) LimitedMap =
  entries :: "('k \<times> 'v) list"
  maxSize :: nat
  hitCount :: nat
  missCount :: nat

definition new_LimitedMap :: "nat \<Rightarrow> ('k, 'v) LimitedMap" where
  "new_LimitedMap n = \<lparr>entries = [], maxSize = n, hitCount = 0, missCount = 0\<rparr>"

definition lm_size :: "('k, 'v) LimitedMap \<Rightarrow> nat" where
  "lm_size m = length (entries m)"

definition lm_keys :: "('k, 'v) LimitedMap \<Rightarrow> 'k list" where
  "lm_keys m = map fst (entries m)"

text \<open>\<^verbatim>\<open>Map.prototype.set\<close>: an existing key keeps its place, a new key goes last.\<close>

fun map_set :: "'k \<Rightarrow> 'v \<Rightarrow> ('k \<times> 'v) list \<Rightarrow> ('k \<times> 'v) list" where
  "map_set k v [] = [(k, v)]"
| "map_set k v (p # ps) = (if fst p = k then (k, v) # ps else p # map_set k v ps)"

text \<open>\<^verbatim>\<open>Map.prototype.delete\<close> and \<^verbatim>\<open>Map.prototype.get\<close> (\<open>None\<close> is \<^verbatim>\<open>undefined\<close>).\<close>

definition map_delete :: "'k \<Rightarrow> ('k \<times> 'v) list \<Rightarrow> ('k \<times> 'v) list" where
  "map_delete k ps = filter (\<lambda>p. fst p \<noteq> k) ps"

definition map_get :: "'k \<Rightarrow> ('k \<times> 'v) list \<Rightarrow> 'v option" where
  "map_get k ps = map_of ps k"

text \<open>
  \<^verbatim>\<open>set(key, value)\<close>: when \<^verbatim>\<open>this.size >= this.maxSize\<close> the first key of the iteration
  order is deleted (on an empty map \<^verbatim>\<open>keys().next().value\<close> is \<^verbatim>\<open>undefined\<close> and the
  delete removes nothing), then the inherited set runs.
\<close>

definition lm_set :: "'k \<Rightarrow> 'v \<Rightarrow> ('k, 'v) LimitedMap \<Rightarrow> ('k, 'v) LimitedMap" where
  "lm_set k v m =
     (let es = (if lm_size m \<ge> maxSize m
                then (case entries m of [] \<Rightarrow> [] | p # _ \<Rightarrow> map_delete (fst p) (entries m))
                else entries m)
      in m\<lparr>entries := map_set k v es\<rparr>)"

text \<open>
  \<^verbatim>\<open>get(key)\<close> counts a hit when the value is truthy and a miss otherwise; the caller
  says which values are truthy (non-empty strings, every object).
\<close>

definition lm_get :: "('v \<Rightarrow> bool) \<Rightarrow> 'k \<Rightarrow> ('k, 'v) LimitedMap \<Rightarrow> 'v option \<times> ('k, 'v) LimitedMap" where
  "lm_get truthy k m =
     (let value = map_get k (entries m)
      in (value,
          (case value of
             Some v \<Rightarrow> if truthy v then m\<lparr>hitCount := hitCount m + 1\<rparr>
                       else m\<lparr>missCount := missCount m + 1\<rparr>
           | None \<Rightarrow> m\<lparr>missCount := missCount m + 1\<rparr>)))"

definition lm_delete :: "'k \<Rightarrow> ('k, 'v) LimitedMap \<Rightarrow> ('k, 'v) LimitedMap" where
  "lm_delete k m = m\<lparr>entries := map_delete k (entries m)\<rparr>"

definition lm_has :: "'k \<Rightarrow> ('k, 'v) LimitedMap \<Rightarrow> bool" where
  "lm_has k m = (k \<in> set (lm_keys m))"

definition lm_clear :: "('k, 'v) LimitedMap \<Rightarrow> ('k, 'v) LimitedMap" where
  "lm_clear m = m\<lparr>entries := []\<rparr>"

text \<open>A sequence of calls on one registry.\<close>

datatype ('k, 'v) lm_op = OpSet 'k 'v | OpGet 'k | OpDelete 'k | OpClear

fun lm_apply :: "('v \<Rightarrow> bool) \<Rightarrow> ('k, 'v) lm_op \<Rightarrow> ('k, 'v) LimitedMap \<Rightarrow> ('k, 'v) LimitedMap" where
  "lm_apply truthy (OpSet k v) m = lm_set k v m"
| "lm_apply truthy (OpGet k) m = snd (lm_get truthy k m)"
| "lm_apply truthy (OpDelete k) m = lm_delete k m"
| "lm_apply truthy OpClear m = lm_clear m"

fun lm_run :: "('v \<Rightarrow> bool) \<Rightarrow> ('k, 'v) lm_op list \<Rightarrow> ('k, 'v) LimitedMap \<Rightarrow> ('k, 'v) LimitedMap" where
  "lm_run truthy [] m = m"
| "lm_run truthy (x # xs) m = lm_run truthy xs (lm_apply truthy x m)"

definition truthy_str :: "string \<Rightarrow> bool" where
  "truthy_str s = (s \<noteq> [])"

definition truthy_obj :: "'a \<Rightarrow> bool" where
  "truthy_obj x = True"

section \<open>The cache client: backend/utils/redisClient.js\<close>

text \<open>
  A JavaScript error: its name, its message and its \<^verbatim>\<open>code\<close> property, which
  \<^verbatim>\<open>new Error(message)\<close> leaves undefined.
\<close>

datatype js_error = JsError (err_name: string) (err_message: string) (err_code: "string option")

definition new_Error :: "string \<Rightarrow> js_error" where
  "new_Error msg = JsError ''Error'' msg None"

definition new_TypeError :: "string \<Rightarrow> js_error" where
  "new_TypeError msg = JsError ''TypeError'' msg None"

text \<open>
  A text held by the cache is known by what \<^verbatim>\<open>JSON.parse\<close> makes of it: \<open>JsonText v\<close>
  is the text \<^verbatim>\<open>JSON.stringify(v)\<close> of an object \<open>v\<close>, and \<open>RawText s\<close> is a text
  \<open>s\<close> that \<^verbatim>\<open>JSON.parse\<close> rejects. A value handed to or returned by the client is an
  object or a string.
\<close>

datatype 'o jtext = JsonText 'o | RawText string

datatype 'o js_value = JsObject 'o | JsString "'o jtext"

definition JSON_stringify :: "'o \<Rightarrow> 'o jtext" where
  "JSON_stringify v = JsonText v"

text \<open>\<^verbatim>\<open>JSON.parse\<close>: \<open>None\<close> is the thrown SyntaxError.\<close>

fun JSON_parse :: "'o jtext \<Rightarrow> 'o option" where
  "JSON_parse (JsonText v) = Some v"
| "JSON_parse (RawText s) = None"

text \<open>Truthiness of a text (the empty string is falsy) and of a value.\<close>

fun truthy_text :: "'o jtext \<Rightarrow> bool" where
  "truthy_text (JsonText v) = True"
| "truthy_text (RawText s) = (s \<noteq> [])"

fun truthy_value :: "'o js_value \<Rightarrow> bool" where
  "truthy_value (JsObject v) = True"
| "truthy_value (JsString t) = truthy_text t"

text \<open>
  \<^verbatim>\<open>typeof value === 'object' ? JSON.stringify(value) : String(value)\<close>, the encoding of
  \<^verbatim>\<open>set\<close> and \<^verbatim>\<open>setEx\<close>.
\<close>

fun stringValue :: "'o js_value \<Rightarrow> 'o jtext" where
  "stringValue (JsObject v) = JSON_stringify v"
| "stringValue (JsString t) = t"

text \<open>Cache keys, by the program's key conventions.\<close>

datatype cache_key =
    MessagesKey string "nat option" nat   \<comment> \<open>\<^verbatim>\<open>messages:<roomId>:<before|latest>:<limit>\<close>\<close>
  | UserKey string                        \<comment> \<open>\<^verbatim>\<open>user:<userId>\<close>\<close>
  | RateLimitKey string                   \<comment> \<open>\<^verbatim>\<open>rate_limit:<rateLimitKey>\<close>\<close>

text \<open>
  An entry of a keyspace: the stored text and the time (ms) at which it expires. The
  counters that \<^verbatim>\<open>incr\<close> keeps are entries whose text is a decimal number; they are held
  apart with the number itself.
\<close>

record 'o item =
  item_value :: "'o jtext"
  item_expires :: "nat option"

record counter =
  counter_value :: nat
  counter_expires :: "nat option"

text \<open>
  \<^verbatim>\<open>class MockRedisClient\<close>: \<^verbatim>\<open>this.store\<close>, with the texts and the counters apart.
\<close>

record 'o MockRedisClient =
  store :: "cache_key \<rightharpoonup> 'o item"
  counters :: "cache_key \<rightharpoonup> counter"

definition new_MockRedisClient :: "'o MockRedisClient" where
  "new_MockRedisClient = \<lparr>store = Map.empty, counters = Map.empty\<rparr>"

definition Mock_set :: "nat \<Rightarrow> cache_key \<Rightarrow> 'o js_value \<Rightarrow> nat \<Rightarrow> 'o MockRedisClient \<Rightarrow> 'o MockRedisClient" where
  "Mock_set now key v ttl m =
     m\<lparr>store := (store m)(key \<mapsto>
        \<lparr>item_value = stringValue v,
         item_expires = (if ttl \<noteq> 0 then Some (now + ttl * 1000) else None)\<rparr>)\<rparr>"

definition Mock_get :: "nat \<Rightarrow> cache_key \<Rightarrow> 'o MockRedisClient \<Rightarrow> 'o jtext option \<times> 'o MockRedisClient" where
  "Mock_get now key m =
     (case store m key of
        None \<Rightarrow> (None, m)
      | Some it \<Rightarrow>
          (case item_expires it of
             Some e \<Rightarrow> if e \<noteq> 0 \<and> now > e then (None, m\<lparr>store := (store m)(key := None)\<rparr>)
                       else (Some (item_value it), m)
           | None \<Rightarrow> (Some (item_value it), m)))"

definition Mock_setEx :: "nat \<Rightarrow> cache_key \<Rightarrow> nat \<Rightarrow> 'o js_value \<Rightarrow> 'o MockRedisClient \<Rightarrow> 'o MockRedisClient" where
  "Mock_setEx now key seconds v m = Mock_set now key v seconds m"

definition Mock_expire :: "nat \<Rightarrow> cache_key \<Rightarrow> nat \<Rightarrow> 'o MockRedisClient \<Rightarrow> 'o MockRedisClient" where
  "Mock_expire now key seconds m =
     (case counters m key of
        Some c \<Rightarrow> m\<lparr>counters := (counters m)(key \<mapsto> c\<lparr>counter_expires := Some (now + seconds * 1000)\<rparr>)\<rparr>
      | None \<Rightarrow> m)"

text \<open>
  \<^verbatim>\<open>MockRedisClient.incr\<close>. Its test
  \<^verbatim>\<open>item && !item.expires || (item.expires && Date.now() <= item.expires)\<close> reads
  \<^verbatim>\<open>item.expires\<close> of an undefined item when the key is absent, which throws a TypeError
  (\<open>Inl\<close>) before anything is stored.
\<close>

definition Mock_incr :: "nat \<Rightarrow> cache_key \<Rightarrow> 'o MockRedisClient \<Rightarrow> js_error + (nat \<times> 'o MockRedisClient)" where
  "Mock_incr now key m =
     (case counters m key of
        None \<Rightarrow> Inl (new_TypeError ''Cannot read properties of undefined'')
      | Some c \<Rightarrow>
          (let live = (case counter_expires c of
                         None \<Rightarrow> True
                       | Some e \<Rightarrow> if e = 0 then True else now \<le> e);
               currentValue = (if live then counter_value c + 1 else 1)
           in Inr (currentValue,
                   m\<lparr>counters := (counters m)(key \<mapsto>
                       \<lparr>counter_value = currentValue,
                        counter_expires = (case counter_expires c of
                                             Some e \<Rightarrow> if e \<noteq> 0 then Some e else None
                                           | None \<Rightarrow> None)\<rparr>)\<rparr>)))"

text \<open>
  \<^verbatim>\<open>class RedisClient\<close>. The connection handling of \<^verbatim>\<open>connect()\<close> is summarised by two
  flags: \<open>useMock\<close> as in the source, and \<open>server_up\<close>, which says whether a call on the
  real client returns (\<open>True\<close>) or throws. \<open>server\<close> is the keyspace of the Redis
  server, where an entry is gone once its expiry time is reached; \<open>mock\<close> is the client
  that replaces the real one, created empty at the first failure.
\<close>

record 'o RedisClient =
  server :: "'o MockRedisClient"
  server_up :: bool
  mock :: "'o MockRedisClient"
  useMock :: bool

definition server_get :: "nat \<Rightarrow> cache_key \<Rightarrow> 'o MockRedisClient \<Rightarrow> 'o jtext option" where
  "server_get now key s =
     (case store s key of
        None \<Rightarrow> None
      | Some it \<Rightarrow>
          (case item_expires it of
             Some e \<Rightarrow> if e \<le> now then None else Some (item_value it)
           | None \<Rightarrow> Some (item_value it)))"

definition server_setEx :: "nat \<Rightarrow> cache_key \<Rightarrow> nat \<Rightarrow> 'o jtext \<Rightarrow> 'o MockRedisClient \<Rightarrow> 'o MockRedisClient" where
  "server_setEx now key seconds t s =
     s\<lparr>store := (store s)(key \<mapsto> \<lparr>item_value = t, item_expires = Some (now + seconds * 1000)\<rparr>)\<rparr>"

definition server_incr :: "nat \<Rightarrow> cache_key \<Rightarrow> 'o MockRedisClient \<Rightarrow> nat \<times> 'o MockRedisClient" where
  "server_incr now key s =
     (let old = (case counters s key of
                   None \<Rightarrow> None
                 | Some c \<Rightarrow> (case counter_expires c of
                                Some e \<Rightarrow> if e \<le> now then None else Some c
                              | None \<Rightarrow> Some c));
          c' = (case old of
                  None \<Rightarrow> \<lparr>counter_value = 1, counter_expires = None\<rparr>
                | Some c \<Rightarrow> c\<lparr>counter_value := counter_value c + 1\<rparr>)
      in (counter_value c', s\<lparr>counters := (counters s)(key \<mapsto> c')\<rparr>))"

definition server_expire :: "nat \<Rightarrow> cache_key \<Rightarrow> nat \<Rightarrow> 'o MockRedisClient \<Rightarrow> 'o MockRedisClient" where
  "server_expire now key seconds s =
     (case counters s key of
        Some c \<Rightarrow> s\<lparr>counters := (counters s)(key \<mapsto> c\<lparr>counter_expires := Some (now + seconds * 1000)\<rparr>)\<rparr>
      | None \<Rightarrow> s)"

text \<open>
  \<^verbatim>\<open>RedisClient.get\<close>. Through the mock the stored string comes back as it is. Through
  the real client a missing or empty value is \<^verbatim>\<open>null\<close>; a string is parsed, and when
  the parse throws the original string is returned. When the real client throws, the
  client is replaced by a new mock, which is asked instead.
\<close>

definition RedisClient_get :: "nat \<Rightarrow> cache_key \<Rightarrow> 'o RedisClient \<Rightarrow> 'o js_value option \<times> 'o RedisClient" where
  "RedisClient_get now key rc =
     (if useMock rc then
        (let (r, m') = Mock_get now key (mock rc)
         in (map_option JsString r, rc\<lparr>mock := m'\<rparr>))
      else if server_up rc then
        (case server_get now key (server rc) of
           None \<Rightarrow> (None, rc)
         | Some t \<Rightarrow>
             if \<not> truthy_text t then (None, rc)
             else (case JSON_parse t of
                     Some v \<Rightarrow> (Some (JsObject v), rc)
                   | None \<Rightarrow> (Some (JsString t), rc)))
      else
        (let (r, m') = Mock_get now key new_MockRedisClient
         in (map_option JsString r, rc\<lparr>mock := m', useMock := True\<rparr>)))"

definition RedisClient_setEx :: "nat \<Rightarrow> cache_key \<Rightarrow> nat \<Rightarrow> 'o js_value \<Rightarrow> 'o RedisClient \<Rightarrow> 'o RedisClient" where
  "RedisClient_setEx now key seconds v rc =
     (if useMock rc then rc\<lparr>mock := Mock_setEx now key seconds v (mock rc)\<rparr>
      else if server_up rc then
        rc\<lparr>server := server_setEx now key seconds (stringValue v) (server rc)\<rparr>
      else rc\<lparr>mock := Mock_setEx now key seconds v new_MockRedisClient, useMock := True\<rparr>)"

text \<open>\<^verbatim>\<open>RedisClient.setex\<close>, the spelling chat.js calls.\<close>

definition RedisClient_setex :: "nat \<Rightarrow> cache_key \<Rightarrow> nat \<Rightarrow> 'o js_value \<Rightarrow> 'o RedisClient \<Rightarrow> 'o RedisClient" where
  "RedisClient_setex now key seconds v rc = RedisClient_setEx now key seconds v rc"

text \<open>
  \<^verbatim>\<open>RedisClient.incr\<close>: with the mock in use a throw of the mock is caught and answered
  by 1; when the real client throws, the new mock is asked from inside the handler, and its
  throw leaves the method (\<open>Inl\<close>).
\<close>

definition RedisClient_incr :: "nat \<Rightarrow> cache_key \<Rightarrow> 'o RedisClient \<Rightarrow> (js_error + nat) \<times> 'o RedisClient" where
  "RedisClient_incr now key rc =
     (if useMock rc then
        (case Mock_incr now key (mock rc) of
           Inr (n, m') \<Rightarrow> (Inr n, rc\<lparr>mock := m'\<rparr>)
         | Inl e \<Rightarrow> (Inr 1, rc))
      else if server_up rc then
        (let (n, s') = server_incr now key (server rc) in (Inr n, rc\<lparr>server := s'\<rparr>))
      else
        (case Mock_incr now key new_MockRedisClient of
           Inr (n, m') \<Rightarrow> (Inr n, rc\<lparr>mock := m', useMock := True\<rparr>)
         | Inl e \<Rightarrow> (Inl e, rc\<lparr>mock := new_MockRedisClient, useMock := True\<rparr>)))"

definition RedisClient_expire :: "nat \<Rightarrow> cache_key \<Rightarrow> nat \<Rightarrow> 'o RedisClient \<Rightarrow> 'o RedisClient" where
  "RedisClient_expire now key seconds rc =
     (if useMock rc then rc\<lparr>mock := Mock_expire now key seconds (mock rc)\<rparr>
      else if server_up rc then rc\<lparr>server := server_expire now key seconds (server rc)\<rparr>
      else rc\<lparr>mock := Mock_expire now key seconds new_MockRedisClient, useMock := True\<rparr>)"

section \<open>The message store and history loading: loadMessages of chat.js\<close>

text \<open>
  A stored message with the fields chat.js reads and writes. A message id is the number
  of messages stored before it, the other identifiers are strings, timestamps are
  milliseconds, and \<open>msg_readers\<close> lists the user ids of \<^verbatim>\<open>readers\<close>. The sender and
  file records that \<^verbatim>\<open>populate\<close> puts in place of their ids are left out.
\<close>

record message =
  msg_id :: nat
  msg_room :: string
  msg_sender :: "string option"
  msg_content :: string
  msg_type :: string
  msg_aiType :: "string option"
  msg_file :: "string option"
  msg_timestamp :: nat
  msg_isDeleted :: bool
  msg_readers :: "string list"

text \<open>The user that the authentication middleware attaches to a socket.\<close>

record user =
  user_id :: string
  user_name :: string

record socket =
  socket_id :: string
  socket_user :: "user option"

text \<open>What \<^verbatim>\<open>loadMessages\<close> returns and caches.\<close>

record fetch_result =
  res_messages :: "message list"
  res_hasMore :: bool
  res_oldestTimestamp :: "nat option"

text \<open>
  The part of the server state that history loading touches: the cache client, the
  Message collection in insertion order, and whether the store answers within the 8 s
  of \<^verbatim>\<open>MESSAGE_LOAD_TIMEOUT\<close> (\<open>db_up\<close>).
\<close>

record store_state =
  redis :: "fetch_result RedisClient"
  db_messages :: "message list"
  db_up :: bool

definition BATCH_SIZE :: nat where
  "BATCH_SIZE = 25"

text \<open>
  \<^verbatim>\<open>before || 'latest'\<close> and \<^verbatim>\<open>if (before)\<close>: an absent value and 0 are falsy.
\<close>

definition truthy_before :: "nat option \<Rightarrow> nat option" where
  "truthy_before beforeTs = (case beforeTs of Some t \<Rightarrow> if t \<noteq> 0 then Some t else None | None \<Rightarrow> None)"

text \<open>
  The query \<^verbatim>\<open>{ room: roomId, isDeleted: { $ne: true } }\<close>, with
  \<^verbatim>\<open>timestamp: { $lt: new Date(before) }\<close> when \<^verbatim>\<open>before\<close> is truthy.
\<close>

definition query_match :: "string \<Rightarrow> nat option \<Rightarrow> message \<Rightarrow> bool" where
  "query_match roomId beforeTs m =
     (msg_room m = roomId \<and> \<not> msg_isDeleted m \<and>
      (case truthy_before beforeTs of Some t \<Rightarrow> msg_timestamp m < t | None \<Rightarrow> True))"

text \<open>
  \<^verbatim>\<open>Message.find(query).sort({ timestamp: -1 }).limit(n)\<close>: newest first, at most \<open>n\<close>.
  The store leaves the order of messages with equal timestamps open; here the one stored
  later comes first.
\<close>

definition Message_find :: "string \<Rightarrow> nat option \<Rightarrow> nat \<Rightarrow> message list \<Rightarrow> message list" where
  "Message_find roomId beforeTs n db =
     take n (rev (sort_key msg_timestamp (filter (query_match roomId beforeTs) db)))"

text \<open>
  \<^verbatim>\<open>Message.updateMany({ _id: { $in: ids }, 'readers.userId': { $ne: uid } }, { $push: ... })\<close>.
\<close>

definition mark_read :: "nat list \<Rightarrow> string \<Rightarrow> message list \<Rightarrow> message list" where
  "mark_read ids uid db =
     map (\<lambda>m. if msg_id m \<in> set ids \<and> uid \<notin> set (msg_readers m)
                then m\<lparr>msg_readers := msg_readers m @ [uid]\<rparr> else m) db"

text \<open>
  \<^verbatim>\<open>loadMessages(socket, roomId, before, limit)\<close>. A truthy cached value is returned when
  it is an object, or when it is a string that parses; a string that does not parse is
  logged and the store is queried. The query asks for \<open>limit + 1\<close> messages; the result
  is cached for 30 s and the returned messages are marked read for the socket's user.
  \<open>Inl\<close> is the error thrown when the store does not answer in time.
\<close>

definition loadMessages ::
  "nat \<Rightarrow> socket \<Rightarrow> string \<Rightarrow> nat option \<Rightarrow> nat \<Rightarrow> store_state \<Rightarrow> (js_error + fetch_result) \<times> store_state" where
  "loadMessages now sock roomId beforeTs limit st =
     (let cacheKey = MessagesKey roomId (truthy_before beforeTs) limit;
          (cachedResult, rc1) = RedisClient_get now cacheKey (redis st);
          st1 = st\<lparr>redis := rc1\<rparr>;
          hit = (case cachedResult of
                   None \<Rightarrow> None
                 | Some c \<Rightarrow>
                     if \<not> truthy_value c then None
                     else (case c of
                             JsObject r \<Rightarrow> Some r
                           | JsString t \<Rightarrow> JSON_parse t))
      in case hit of
           Some r \<Rightarrow> (Inr r, st1)
         | None \<Rightarrow>
             if \<not> db_up st1 then (Inl (new_Error ''Message loading timed out''), st1)
             else
               (let messages = Message_find roomId beforeTs (limit + 1) (db_messages st1);
                    hasMore = (length messages > limit);
                    resultMessages = take limit messages;
                    sortedMessages = sort_key msg_timestamp resultMessages;
                    result = \<lparr>res_messages = sortedMessages,
                              res_hasMore = hasMore,
                              res_oldestTimestamp =
                                (case sortedMessages of [] \<Rightarrow> None | m # _ \<Rightarrow> Some (msg_timestamp m))\<rparr>;
                    rc2 = RedisClient_setex now cacheKey 30 (JsString (JSON_stringify result)) rc1;
                    db2 = (case socket_user sock of
                             Some u \<Rightarrow>
                               if sortedMessages \<noteq> []
                               then mark_read (map msg_id sortedMessages) (user_id u) (db_messages st1)
                               else db_messages st1
                           | None \<Rightarrow> db_messages st1)
                in (Inr result, st1\<lparr>redis := rc2, db_messages := db2\<rparr>)))"

text \<open>
  \<^verbatim>\<open>new Message({ room, sender, content, type, timestamp })\<close> as saved with the next free
  identifier: not deleted, no readers.
\<close>

definition new_Message :: "nat \<Rightarrow> string \<Rightarrow> string option \<Rightarrow> string \<Rightarrow> string \<Rightarrow> nat \<Rightarrow> message" where
  "new_Message i roomId sender content mtype ts =
     \<lparr>msg_id = i, msg_room = roomId, msg_sender = sender, msg_content = content,
      msg_type = mtype, msg_aiType = None, msg_file = None, msg_timestamp = ts,
      msg_isDeleted = False, msg_readers = []\<rparr>"

text \<open>The state at start-up: the real cache client in use, nothing cached, nothing stored.\<close>

definition fresh_redis :: "'o RedisClient" where
  "fresh_redis = \<lparr>server = new_MockRedisClient, server_up = True,
                   mock = new_MockRedisClient, useMock = False\<rparr>"

definition fresh_store :: store_state where
  "fresh_store = \<lparr>redis = fresh_redis, db_messages = [], db_up = True\<rparr>"

section \<open>Strings\<close>

text \<open>
  The decimal text of a number, as a template string \<^verbatim>\<open>`${n}`\<close> prints it, and the
  string methods the handlers call.
\<close>

definition digit_char :: "nat \<Rightarrow> char" where
  "digit_char d = ''0123456789'' ! d"

function string_of_nat :: "nat \<Rightarrow> string" where
  "string_of_nat n =
     (if n < 10 then [digit_char n] else string_of_nat (n div 10) @ [digit_char (n mod 10)])"
  by pat_completeness auto
termination
  by (relation "measure id") auto

declare string_of_nat.simps [simp del]

fun startsWith :: "string \<Rightarrow> string \<Rightarrow> bool" where
  "startsWith s [] = True"
| "startsWith [] (p # ps) = False"
| "startsWith (c # cs) (p # ps) = (c = p \<and> startsWith cs ps)"

fun str_includes :: "string \<Rightarrow> string \<Rightarrow> bool" where
  "str_includes [] p = (p = [])"
| "str_includes (c # cs) p = (startsWith (c # cs) p \<or> str_includes cs p)"

section \<open>The state of the socket server: chat.js\<close>

text \<open>Constants of chat.js.\<close>

definition DUPLICATE_LOGIN_TIMEOUT :: nat where
  "DUPLICATE_LOGIN_TIMEOUT = 8000"

definition RATE_LIMIT_WINDOW :: nat where
  "RATE_LIMIT_WINDOW = 60000"

definition RATE_LIMIT_MAX :: nat where
  "RATE_LIMIT_MAX = 40"

text \<open>The values of the registries.\<close>

record rate_entry =
  rl_count :: nat
  rl_timestamp :: nat

text \<open>
  A streaming session as \<^verbatim>\<open>handleAIResponse\<close> creates it. No code sets \<^verbatim>\<open>userId\<close> on a
  session, so \<open>ss_userId\<close> is \<open>None\<close> (\<^verbatim>\<open>undefined\<close>) in every session the program makes.
\<close>

record streaming_session =
  ss_room :: string
  ss_aiType :: string
  ss_content :: string
  ss_timestamp :: nat
  ss_lastActivity :: nat
  ss_userId :: "string option"

text \<open>
  What the server sends. The target is one socket (\<^verbatim>\<open>socket.emit\<close>), a room
  (\<^verbatim>\<open>io.to(room).emit\<close>) or a room without the sending socket
  (\<^verbatim>\<open>socket.to(room).emit\<close>).
\<close>

datatype target = ToSocket string | ToRoom string | ToRoomExcept string string

record join_payload =
  jp_participants :: "string list"
  jp_messages :: "message list"
  jp_hasMore :: bool
  jp_oldestTimestamp :: "nat option"
  jp_activeStreams :: "streaming_session list"

datatype event =
    Duplicate_login                          \<comment> \<open>\<^verbatim>\<open>duplicate_login\<close>\<close>
  | Session_ended string                     \<comment> \<open>\<^verbatim>\<open>session_ended\<close>, its reason\<close>
  | JoinRoomSuccess string "join_payload option"
      \<comment> \<open>\<^verbatim>\<open>joinRoomSuccess\<close>: the roomId, and the rest of the payload when there is one\<close>
  | JoinRoomError string
  | ConnectError string                      \<comment> \<open>the middleware's \<^verbatim>\<open>next(new Error(message))\<close>\<close>
  | ErrorEvent "string option" string        \<comment> \<open>\<^verbatim>\<open>error\<close>: code (when the payload has one), message\<close>
  | MessageEvent message                     \<comment> \<open>\<^verbatim>\<open>message\<close>\<close>
  | UserLeft string string
  | ParticipantsUpdate "string list"
  | AiMessageStart string string             \<comment> \<open>sessionId, aiType\<close>
  | AiMessageChunk string string string      \<comment> \<open>sessionId, chunk, fullContent\<close>
  | AiMessageComplete string message
  | AiMessageError string

type_synonym emit = "target \<times> event"

text \<open>
  The payload of \<^verbatim>\<open>chatMessage\<close>: \<^verbatim>\<open>{ room, content, type = 'user', file, fileData }\<close>, with
  \<open>cp_fileData\<close> the \<^verbatim>\<open>_id\<close> of \<^verbatim>\<open>fileData\<close>. An absent room or content is the empty
  string.
\<close>

record chat_payload =
  cp_room :: string
  cp_content :: string
  cp_type :: "string option"
  cp_file :: "string option"
  cp_fileData :: "string option"

text \<open>
  What the callbacks of one call of \<^verbatim>\<open>handleAIResponse\<close> close over: the room, the AI
  type and the session id.
\<close>

record ai_run =
  run_room :: string
  run_aiType :: string
  run_sessionId :: string

text \<open>
  The handlers are \<^verbatim>\<open>async\<close> functions. A handler runs until it awaits a promise and goes
  on when the promise settles; other handlers run in between. A task is a handler stopped
  at an \<^verbatim>\<open>await\<close>, or a \<^verbatim>\<open>then\<close> callback, with the values it will use when it goes on.
  The awaited operation takes effect when the task is resumed.
\<close>

datatype task =
    AuthTask string string string
      \<comment> \<open>the middleware before \<^verbatim>\<open>await SessionService.validateSession\<close>: socket id, user id, session id\<close>
  | IncrTask socket chat_payload nat
      \<comment> \<open>\<^verbatim>\<open>chatMessage\<close> in \<^verbatim>\<open>checkRateLimit\<close> at \<^verbatim>\<open>await redisClient.incr(key)\<close>; the \<^verbatim>\<open>now\<close> of the check\<close>
  | ExpireTask socket chat_payload nat nat
      \<comment> \<open>the same at \<^verbatim>\<open>await redisClient.expire(key, 60)\<close>; \<^verbatim>\<open>now\<close> and \<^verbatim>\<open>count\<close>\<close>
  | SaveTask socket chat_payload message
      \<comment> \<open>\<^verbatim>\<open>chatMessage\<close> at \<^verbatim>\<open>await newMessage.save()\<close>\<close>
  | RoomTask socket string
      \<comment> \<open>\<^verbatim>\<open>joinRoom\<close> at \<^verbatim>\<open>await Room.findByIdAndUpdate(...)\<close>\<close>
  | JoinSaveTask string message
      \<comment> \<open>\<^verbatim>\<open>joinMessage.save().then(...)\<close>\<close>
  | LoadTask socket string "string list"
      \<comment> \<open>\<^verbatim>\<open>joinRoom\<close> at \<^verbatim>\<open>await loadMessages(socket, roomId)\<close>; the participants read before\<close>
  | AiSaveTask ai_run message bool
      \<comment> \<open>\<^verbatim>\<open>onComplete\<close> at \<^verbatim>\<open>await aiMessage.save()\<close>; whether the save will succeed\<close>

text \<open>
  A connection attempt held in the authentication middleware while
  \<^verbatim>\<open>handleDuplicateLogin\<close> waits: the socket that is connecting, the user id of its
  token, its session id, the existing socket it waits for, and the time at which the
  timer of \<^verbatim>\<open>DUPLICATE_LOGIN_TIMEOUT\<close> fires.
\<close>

record pending_login =
  pl_socket :: string
  pl_userId :: string
  pl_sessionId :: string
  pl_existing :: string
  pl_deadline :: nat

text \<open>
  The state: the five registries, the stores, the participants of each room
  (the Room collection), the connected sockets of \<^verbatim>\<open>io.sockets.sockets\<close>, the rooms
  each socket has joined, the connection attempts that wait for a pre-emption timer, the
  tasks that wait for a promise, the AI responses that have been started, and the sockets
  whose client closed the connection before the handshake was over.
\<close>

record world =
  connectedUsers :: "(string, string) LimitedMap"
  streamingSessions :: "(string, streaming_session) LimitedMap"
  userRooms :: "(string, string) LimitedMap"
  messageQueues :: "(string, nat) LimitedMap"
  rateLimitCache :: "(string, rate_entry) LimitedMap"
  storage :: store_state
  db_rooms :: "string \<rightharpoonup> string list"
  io_sockets :: "string \<rightharpoonup> socket"
  socket_rooms :: "string \<Rightarrow> string list"
  pending :: "pending_login list"
  tasks :: "task list"
  ai_runs :: "ai_run list"
  client_left :: "string list"

definition new_world :: world where
  "new_world =
     \<lparr>connectedUsers = new_LimitedMap 2000,
      streamingSessions = new_LimitedMap 500,
      userRooms = new_LimitedMap 2000,
      messageQueues = new_LimitedMap 1000,
      rateLimitCache = new_LimitedMap 2000,
      storage = fresh_store,
      db_rooms = Map.empty,
      io_sockets = Map.empty,
      socket_rooms = (\<lambda>_. []),
      pending = [],
      tasks = [],
      ai_runs = [],
      client_left = []\<rparr>"

text \<open>
  The services chat.js calls and whose code is elsewhere: \<^verbatim>\<open>jwt.verify\<close> (\<open>Inl\<close> when
  it throws, else the \<^verbatim>\<open>user.id\<close> of the decoded token, \<open>None\<close> when the token has
  none), \<^verbatim>\<open>SessionService.validateSession\<close> (\<open>None\<close> when valid, else the message), the
  user record the middleware resolves (cache, then \<^verbatim>\<open>User.findById\<close>), whether
  \<^verbatim>\<open>aiService.generateResponse\<close> is a function, and the reason that Socket.IO hands
  the \<^verbatim>\<open>disconnect\<close> listeners when the server closes a socket with
  \<^verbatim>\<open>socket.disconnect(true)\<close> (chat.js passes no reason of its own).
\<close>

record env =
  jwt_verify :: "string \<Rightarrow> js_error + string option"
  validateSession :: "string \<Rightarrow> string \<Rightarrow> string option"
  User_findById :: "string \<Rightarrow> user option"
  aiService_available :: bool
  close_reason :: string

text \<open>
  An object held in a registry is mutated in place (\<^verbatim>\<open>cached.count++\<close>,
  \<^verbatim>\<open>session.content += chunk\<close>): the entry keeps its place and no eviction runs.
\<close>

definition lm_mutate :: "'k \<Rightarrow> ('v \<Rightarrow> 'v) \<Rightarrow> ('k, 'v) LimitedMap \<Rightarrow> ('k, 'v) LimitedMap" where
  "lm_mutate k f m = m\<lparr>entries := map (\<lambda>p. if fst p = k then (fst p, f (snd p)) else p) (entries m)\<rparr>"

section \<open>Rate limiting: checkRateLimit\<close>

text \<open>
  The message of the limit error is Korean text in the source, followed by the limit in
  parentheses; the handler recognises the error by the first words of that text.
  \<open>rate_limit_marker\<close> stands for those words and \<open>rate_limit_message\<close> for the message.
\<close>

definition rate_limit_marker :: string where
  "rate_limit_marker = ''message send limit''"

definition rate_limit_message :: string where
  "rate_limit_message =
     rate_limit_marker @ '' exceeded. ('' @ string_of_nat RATE_LIMIT_MAX @ ''/min)''"

text \<open>
  \<^verbatim>\<open>checkRateLimit(userId)\<close>. The function reads the cached bucket, and a bucket decides
  alone, in one piece. Without a bucket the function awaits \<^verbatim>\<open>redisClient.incr(key)\<close>,
  then, when the count is 1, \<^verbatim>\<open>redisClient.expire(key, 60)\<close>, and only then tests the
  count and writes the bucket; an error thrown in that block is thrown on when it is the
  limit error, and otherwise a bucket with count 1 is cached. What a part returns says
  where the function is: it has returned or thrown, or it is at one of the two awaits.
\<close>

definition rateLimitKey :: "string \<Rightarrow> nat \<Rightarrow> string" where
  "rateLimitKey userId now = userId @ '':'' @ string_of_nat (now div RATE_LIMIT_WINDOW)"

datatype rate_outcome =
    RateDone "js_error + unit"   \<comment> \<open>thrown (\<open>Inl\<close>) or returned\<close>
  | AwaitIncr                    \<comment> \<open>at \<^verbatim>\<open>await redisClient.incr(key)\<close>\<close>
  | AwaitExpire nat              \<comment> \<open>at \<^verbatim>\<open>await redisClient.expire(key, 60)\<close>, with the count\<close>

text \<open>From the call to the first await: \<open>now\<close> is \<^verbatim>\<open>Date.now()\<close>.\<close>

definition checkRateLimit :: "nat \<Rightarrow> string \<Rightarrow> world \<Rightarrow> rate_outcome \<times> world" where
  "checkRateLimit now userId w =
     (let (cached, cache1) = lm_get truthy_obj (rateLimitKey userId now) (rateLimitCache w);
          w1 = w\<lparr>rateLimitCache := cache1\<rparr>
      in case cached of
           Some c \<Rightarrow>
             if rl_count c \<ge> RATE_LIMIT_MAX then (RateDone (Inl (new_Error rate_limit_message)), w1)
             else (RateDone (Inr ()),
                   w1\<lparr>rateLimitCache :=
                        lm_mutate (rateLimitKey userId now) (\<lambda>e. e\<lparr>rl_count := rl_count e + 1\<rparr>) cache1\<rparr>)
         | None \<Rightarrow> (AwaitIncr, w1))"

text \<open>The \<^verbatim>\<open>catch (redisError)\<close> block.\<close>

definition checkRateLimit_catch :: "nat \<Rightarrow> string \<Rightarrow> js_error \<Rightarrow> world \<Rightarrow> rate_outcome \<times> world" where
  "checkRateLimit_catch now userId redisError w =
     (if str_includes (err_message redisError) rate_limit_marker then (RateDone (Inl redisError), w)
      else (RateDone (Inr ()),
            w\<lparr>rateLimitCache :=
                lm_set (rateLimitKey userId now) \<lparr>rl_count = 1, rl_timestamp = now\<rparr> (rateLimitCache w)\<rparr>))"

text \<open>The rest of the \<^verbatim>\<open>try\<close> block once the count is known and the expiry is set.\<close>

definition checkRateLimit_count :: "nat \<Rightarrow> string \<Rightarrow> nat \<Rightarrow> world \<Rightarrow> rate_outcome \<times> world" where
  "checkRateLimit_count now userId cnt w =
     (if cnt > RATE_LIMIT_MAX then checkRateLimit_catch now userId (new_Error rate_limit_message) w
      else (RateDone (Inr ()),
            w\<lparr>rateLimitCache :=
                lm_set (rateLimitKey userId now) \<lparr>rl_count = cnt, rl_timestamp = now\<rparr> (rateLimitCache w)\<rparr>))"

text \<open>
  The function goes on at time \<open>t\<close> after \<^verbatim>\<open>await redisClient.incr(key)\<close>: the counter of
  the cache server is incremented now.
\<close>

definition checkRateLimit_incr :: "nat \<Rightarrow> nat \<Rightarrow> string \<Rightarrow> world \<Rightarrow> rate_outcome \<times> world" where
  "checkRateLimit_incr t now userId w =
     (let (res, rc1) = RedisClient_incr t (RateLimitKey (rateLimitKey userId now)) (redis (storage w));
          w1 = w\<lparr>storage := (storage w)\<lparr>redis := rc1\<rparr>\<rparr>
      in case res of
           Inl redisError \<Rightarrow> checkRateLimit_catch now userId redisError w1
         | Inr cnt \<Rightarrow>
             if cnt = 1 then (AwaitExpire cnt, w1)
             else checkRateLimit_count now userId cnt w1)"

text \<open>The function goes on at time \<open>t\<close> after \<^verbatim>\<open>await redisClient.expire(key, 60)\<close>.\<close>

definition checkRateLimit_expire :: "nat \<Rightarrow> nat \<Rightarrow> string \<Rightarrow> nat \<Rightarrow> world \<Rightarrow> rate_outcome \<times> world" where
  "checkRateLimit_expire t now userId cnt w =
     (let rc2 = RedisClient_expire t (RateLimitKey (rateLimitKey userId now)) 60 (redis (storage w));
          w2 = w\<lparr>storage := (storage w)\<lparr>redis := rc2\<rparr>\<rparr>
      in checkRateLimit_count now userId cnt w2)"

section \<open>AI responses: handleAIResponse\<close>

text \<open>
  \<^verbatim>\<open>handleAIResponse(io, roomId, aiType, query)\<close> up to the call of the generator: without
  a generator nothing happens; otherwise the session is stored under
  \<^verbatim>\<open>`${roomId}_${aiType}_${Date.now()}`\<close>, \<^verbatim>\<open>aiMessageStart\<close> goes to the room and the
  generator is called with the three callbacks. The result is the session id (when a
  session was made), what was sent, and the state.
\<close>

definition ai_sessionId :: "string \<Rightarrow> string \<Rightarrow> nat \<Rightarrow> string" where
  "ai_sessionId roomId aiType now = roomId @ ''_'' @ aiType @ ''_'' @ string_of_nat now"

definition handleAIResponse :: "env \<Rightarrow> nat \<Rightarrow> string \<Rightarrow> string \<Rightarrow> world \<Rightarrow> string option \<times> emit list \<times> world" where
  "handleAIResponse ev now roomId aiType w =
     (if \<not> aiService_available ev then (None, [], w)
      else
        (let sessionId = ai_sessionId roomId aiType now;
             w1 = w\<lparr>streamingSessions :=
                    lm_set sessionId
                      \<lparr>ss_room = roomId, ss_aiType = aiType, ss_content = [],
                       ss_timestamp = now, ss_lastActivity = now, ss_userId = None\<rparr>
                      (streamingSessions w),
                   ai_runs := ai_runs w @
                      [\<lparr>run_room = roomId, run_aiType = aiType, run_sessionId = sessionId\<rparr>]\<rparr>
         in (Some sessionId, [(ToRoom roomId, AiMessageStart sessionId aiType)], w1)))"

text \<open>
  \<^verbatim>\<open>message.save()\<close>: the message joins the collection under the next free identifier.
\<close>

definition Message_save :: "message \<Rightarrow> world \<Rightarrow> message \<times> world" where
  "Message_save m w =
     (let saved = m\<lparr>msg_id := length (db_messages (storage w))\<rparr>
      in (saved, w\<lparr>storage := (storage w)\<lparr>db_messages := db_messages (storage w) @ [saved]\<rparr>\<rparr>))"

text \<open>
  The callbacks handed to the generator, called at time \<open>now\<close>. \<^verbatim>\<open>onChunk\<close> sends a chunk
  only while the session is in the registry. \<^verbatim>\<open>onComplete\<close> makes the final message and
  awaits its save; \<open>save_ok\<close> says whether the save will succeed. \<^verbatim>\<open>onError\<close> sends
  \<^verbatim>\<open>aiMessageError\<close> and deletes the session.
\<close>

datatype callback = OnChunk string | OnComplete string bool | OnError

fun ai_callback :: "nat \<Rightarrow> string \<Rightarrow> string \<Rightarrow> string \<Rightarrow> callback \<Rightarrow> world \<Rightarrow> emit list \<times> world" where
  "ai_callback now roomId aiType sessionId (OnChunk chunk) w =
     (let (session, reg1) = lm_get truthy_obj sessionId (streamingSessions w)
      in case session of
           None \<Rightarrow> ([], w\<lparr>streamingSessions := reg1\<rparr>)
         | Some s \<Rightarrow>
             ([(ToRoom roomId, AiMessageChunk sessionId chunk (ss_content s @ chunk))],
              w\<lparr>streamingSessions :=
                  lm_mutate sessionId
                    (\<lambda>x. x\<lparr>ss_content := ss_content x @ chunk, ss_lastActivity := now\<rparr>) reg1\<rparr>))"
| "ai_callback now roomId aiType sessionId (OnComplete finalContent save_ok) w =
     (let aiMessage = (new_Message 0 roomId None finalContent ''ai'' now)\<lparr>msg_aiType := Some aiType\<rparr>
      in ([], w\<lparr>tasks := tasks w @
                  [AiSaveTask \<lparr>run_room = roomId, run_aiType = aiType, run_sessionId = sessionId\<rparr>
                     aiMessage save_ok]\<rparr>))"
| "ai_callback now roomId aiType sessionId OnError w =
     ([(ToRoom roomId, AiMessageError sessionId)],
      w\<lparr>streamingSessions := lm_delete sessionId (streamingSessions w)\<rparr>)"

text \<open>
  \<^verbatim>\<open>onComplete\<close> after \<^verbatim>\<open>await aiMessage.save()\<close>: after a save \<^verbatim>\<open>aiMessageComplete\<close> is
  sent and the session is deleted; when the save has thrown the session is deleted and
  nothing is sent.
\<close>

definition ai_saved :: "ai_run \<Rightarrow> message \<Rightarrow> bool \<Rightarrow> world \<Rightarrow> emit list \<times> world" where
  "ai_saved r aiMessage save_ok w =
     (if save_ok then
        (let (saved, w1) = Message_save aiMessage w
         in ([(ToRoom (run_room r), AiMessageComplete (run_sessionId r) saved)],
             w1\<lparr>streamingSessions := lm_delete (run_sessionId r) (streamingSessions w1)\<rparr>))
      else ([], w\<lparr>streamingSessions := lm_delete (run_sessionId r) (streamingSessions w)\<rparr>))"

section \<open>Connections: the middleware, handleDuplicateLogin and the disconnect handler\<close>

text \<open>
  The texts of system messages and of errors are Korean in the source; short English
  texts stand for them here.
\<close>

definition joined_text :: "string \<Rightarrow> string" where
  "joined_text userName = userName @ '' joined''"

definition disconnected_text :: "string \<Rightarrow> string" where
  "disconnected_text userName = userName @ '' disconnected''"

definition truthy_opt :: "string option \<Rightarrow> bool" where
  "truthy_opt x = (case x of Some s \<Rightarrow> s \<noteq> [] | None \<Rightarrow> False)"

text \<open>
  The handler of \<^verbatim>\<open>socket.on('disconnect', async (reason) => ...)\<close>. The connection
  registry loses the user only when it still names this socket; the current room, the load
  keys containing the user id, the streaming sessions of the user and the rate buckets
  whose key starts with the user id go in any case. When the user was in a room and the
  reason is neither \<^verbatim>\<open>'client namespace disconnect'\<close> nor \<^verbatim>\<open>'duplicate_login'\<close>, the leave
  message is saved and the user is pulled from the participants; both are sent to the
  room when the room exists. The handler starts the two writes and they finish later; here
  they finish at once.
\<close>

definition disconnect_handler :: "nat \<Rightarrow> socket \<Rightarrow> string \<Rightarrow> world \<Rightarrow> emit list \<times> world" where
  "disconnect_handler now sock reason w =
     (case socket_user sock of
        None \<Rightarrow> ([], w)
      | Some u \<Rightarrow>
          (let userId = user_id u;
               userName = user_name u;
               (current, cu1) = lm_get truthy_str userId (connectedUsers w);
               cu2 = (if current = Some (socket_id sock) then lm_delete userId cu1 else cu1);
               (roomId, ur1) = lm_get truthy_str userId (userRooms w);
               ur2 = (if truthy_opt roomId then lm_delete userId ur1 else ur1);
               mq = (messageQueues w)\<lparr>entries :=
                       filter (\<lambda>p. \<not> str_includes (fst p) userId) (entries (messageQueues w))\<rparr>;
               ss = (streamingSessions w)\<lparr>entries :=
                       filter (\<lambda>p. ss_userId (snd p) \<noteq> Some userId) (entries (streamingSessions w))\<rparr>;
               rl = (rateLimitCache w)\<lparr>entries :=
                       filter (\<lambda>p. \<not> startsWith (fst p) userId) (entries (rateLimitCache w))\<rparr>;
               w1 = w\<lparr>connectedUsers := cu2, userRooms := ur2, messageQueues := mq,
                      streamingSessions := ss, rateLimitCache := rl\<rparr>
           in case roomId of
                None \<Rightarrow> ([], w1)
              | Some r \<Rightarrow>
                  if r \<noteq> [] \<and> reason \<noteq> ''client namespace disconnect'' \<and> reason \<noteq> ''duplicate_login''
                  then
                    (let leaveMessage = new_Message (length (db_messages (storage w1))) r None
                                          (disconnected_text userName) ''system'' now;
                         w2 = w1\<lparr>storage := (storage w1)\<lparr>db_messages :=
                                              db_messages (storage w1) @ [leaveMessage]\<rparr>\<rparr>
                     in case db_rooms w2 r of
                          None \<Rightarrow> ([], w2)
                        | Some ps \<Rightarrow>
                            (let ps' = filter (\<lambda>x. x \<noteq> userId) ps
                             in ([(ToRoom r, MessageEvent leaveMessage),
                                  (ToRoom r, ParticipantsUpdate ps')],
                                 w2\<lparr>db_rooms := (db_rooms w2)(r \<mapsto> ps')\<rparr>)))
                  else ([], w1)))"

text \<open>
  The handler of \<^verbatim>\<open>io.on('connection', ...)\<close>, as far as the registry goes: the socket is
  among the connected sockets and the registry names it for its user.
\<close>

definition connection :: "socket \<Rightarrow> world \<Rightarrow> world" where
  "connection sock w =
     (let w1 = w\<lparr>io_sockets := (io_sockets w)(socket_id sock \<mapsto> sock)\<rparr>
      in case socket_user sock of
           None \<Rightarrow> w1
         | Some u \<Rightarrow>
             (let (previousSocketId, cu1) = lm_get truthy_str (user_id u) (connectedUsers w1)
              in w1\<lparr>connectedUsers := lm_set (user_id u) (socket_id sock) cu1\<rparr>))"

text \<open>
  The middleware after the duplicate-login check: the session is validated, the user is
  resolved, \<^verbatim>\<open>socket.user\<close> is set and \<^verbatim>\<open>next()\<close> lets the connection handler run. These
  awaits call services outside the state and are taken together. Socket.IO ignores a
  \<^verbatim>\<open>next\<close> that is called once the client has closed the connection: then no error is sent
  and the connection handler does not run.
\<close>

definition auth_finish :: "env \<Rightarrow> string \<Rightarrow> string \<Rightarrow> string \<Rightarrow> world \<Rightarrow> emit list \<times> world" where
  "auth_finish ev socketId userId sessionId w =
     (if socketId \<in> set (client_left w) then ([], w)
      else
        (case validateSession ev userId sessionId of
           Some msg \<Rightarrow> ([(ToSocket socketId, ConnectError (if msg = [] then ''Invalid session'' else msg))], w)
         | None \<Rightarrow>
             (case User_findById ev userId of
                None \<Rightarrow> ([(ToSocket socketId, ConnectError ''User not found'')], w)
              | Some user \<Rightarrow> ([], connection \<lparr>socket_id = socketId, socket_user = Some user\<rparr> w))))"

text \<open>
  A promise of \<^verbatim>\<open>handleDuplicateLogin\<close> that resolves makes the middleware that awaits it
  a task.
\<close>

definition resolved :: "pending_login \<Rightarrow> task" where
  "resolved p = AuthTask (pl_socket p) (pl_userId p) (pl_sessionId p)"

text \<open>
  When a socket closes, Socket.IO takes it out of the connected sockets and of its rooms
  and runs its \<^verbatim>\<open>disconnect\<close> listeners with the reason: first the handler above, then
  the listener that each waiting \<^verbatim>\<open>handleDuplicateLogin\<close> put on it, which clears the
  timer and resolves.
\<close>

definition socket_close :: "env \<Rightarrow> nat \<Rightarrow> string \<Rightarrow> string \<Rightarrow> world \<Rightarrow> emit list \<times> world" where
  "socket_close ev now socketId reason w =
     (case io_sockets w socketId of
        None \<Rightarrow> ([], w)
      | Some sock \<Rightarrow>
          (let w1 = w\<lparr>io_sockets := (io_sockets w)(socketId := None),
                      socket_rooms := (socket_rooms w)(socketId := [])\<rparr>;
               (es, w2) = disconnect_handler now sock reason w1;
               waiting = filter (\<lambda>p. pl_existing p = socketId) (pending w2)
           in (es, w2\<lparr>pending := filter (\<lambda>p. pl_existing p \<noteq> socketId) (pending w2),
                      tasks := tasks w2 @ map resolved waiting\<rparr>)))"

text \<open>
  A handshake: the id of the connecting socket, \<^verbatim>\<open>auth.token\<close> and \<^verbatim>\<open>auth.sessionId\<close>.
\<close>

record handshake =
  hs_socket :: string
  hs_token :: "string option"
  hs_sessionId :: "string option"

text \<open>
  \<^verbatim>\<open>handleDuplicateLogin(existingSocket, newSocket)\<close>, called by the middleware for the
  connecting socket: the existing socket is sent \<^verbatim>\<open>duplicate_login\<close>, and a promise is
  returned that the timer of \<^verbatim>\<open>DUPLICATE_LOGIN_TIMEOUT\<close> or the \<^verbatim>\<open>disconnect\<close> of the
  existing socket resolves. The promise is the entry added to \<open>pending\<close>; the timer is
  \<open>timer_fires\<close> below and the listener is run by \<open>socket_close\<close>.
\<close>

definition handleDuplicateLogin ::
  "nat \<Rightarrow> string \<Rightarrow> string \<Rightarrow> string \<Rightarrow> string \<Rightarrow> world \<Rightarrow> emit list \<times> world" where
  "handleDuplicateLogin now existingSocket newSocket userId sessionId w =
     ([(ToSocket existingSocket, Duplicate_login)],
      w\<lparr>pending := pending w @
         [\<lparr>pl_socket = newSocket, pl_userId = userId, pl_sessionId = sessionId,
           pl_existing = existingSocket, pl_deadline = now + DUPLICATE_LOGIN_TIMEOUT\<rparr>]\<rparr>)"

text \<open>
  \<^verbatim>\<open>io.use(async (socket, next) => ...)\<close> up to its first await. When the registry names
  another socket for the user and that socket is connected, the middleware awaits
  \<^verbatim>\<open>handleDuplicateLogin\<close>. Otherwise it awaits the validation of the session.
\<close>

definition middleware :: "env \<Rightarrow> nat \<Rightarrow> handshake \<Rightarrow> world \<Rightarrow> emit list \<times> world" where
  "middleware ev now hs w =
     (case (hs_token hs, hs_sessionId hs) of
        (Some token, Some sessionId) \<Rightarrow>
          if token = [] \<or> sessionId = []
          then ([(ToSocket (hs_socket hs), ConnectError ''Authentication error'')], w)
          else
            (case jwt_verify ev token of
               Inl e \<Rightarrow>
                 ([(ToSocket (hs_socket hs),
                    ConnectError (if err_name e = ''TokenExpiredError'' then ''Token expired''
                                  else if err_name e = ''JsonWebTokenError'' then ''Invalid token''
                                  else ''Authentication failed''))], w)
             | Inr decoded \<Rightarrow>
                 if \<not> truthy_opt decoded
                 then ([(ToSocket (hs_socket hs), ConnectError ''Invalid token'')], w)
                 else
                   (let userId = the decoded;
                        (existingSocketId, cu1) = lm_get truthy_str userId (connectedUsers w);
                        w1 = w\<lparr>connectedUsers := cu1\<rparr>;
                        validation = AuthTask (hs_socket hs) userId sessionId
                    in case existingSocketId of
                         None \<Rightarrow> ([], w1\<lparr>tasks := tasks w1 @ [validation]\<rparr>)
                       | Some existing \<Rightarrow>
                           if existing \<noteq> [] \<and> existing \<noteq> hs_socket hs \<and> io_sockets w1 existing \<noteq> None
                           then handleDuplicateLogin now existing (hs_socket hs) userId sessionId w1
                           else ([], w1\<lparr>tasks := tasks w1 @ [validation]\<rparr>)))
      | _ \<Rightarrow> ([(ToSocket (hs_socket hs), ConnectError ''Authentication error'')], w))"

text \<open>
  The timer of \<^verbatim>\<open>handleDuplicateLogin\<close> for the waiting attempt of socket \<open>socketId\<close>. It
  fires only at or after its deadline and only while the attempt waits (the listener of
  the existing socket clears it). It sends \<^verbatim>\<open>session_ended\<close> with reason
  \<^verbatim>\<open>duplicate_login\<close> to the existing socket, closes it with
  \<^verbatim>\<open>existingSocket.disconnect(true)\<close>, whose listeners run before the call returns, and
  resolves in its \<^verbatim>\<open>finally\<close> block if the close has not done so.
\<close>

definition timer_fires :: "env \<Rightarrow> nat \<Rightarrow> string \<Rightarrow> world \<Rightarrow> emit list \<times> world" where
  "timer_fires ev now socketId w =
     (case filter (\<lambda>p. pl_socket p = socketId) (pending w) of
        [] \<Rightarrow> ([], w)
      | p # _ \<Rightarrow>
          if now < pl_deadline p then ([], w)
          else
            (let (es, w1) = socket_close ev now (pl_existing p) (close_reason ev) w;
                 waiting = filter (\<lambda>q. pl_socket q = socketId) (pending w1)
             in ((ToSocket (pl_existing p), Session_ended ''duplicate_login'') # es,
                 w1\<lparr>pending := filter (\<lambda>q. pl_socket q \<noteq> socketId) (pending w1),
                    tasks := tasks w1 @ map resolved waiting\<rparr>)))"

section \<open>Rooms: the joinRoom handler\<close>

definition room_not_found_text :: string where
  "room_not_found_text = ''room not found''"

text \<open>
  The handler of \<^verbatim>\<open>joinRoom\<close> up to its first await. A user whose current room is the
  requested one gets \<^verbatim>\<open>joinRoomSuccess\<close> with the room id alone. Otherwise the user leaves
  the current room and the handler awaits \<^verbatim>\<open>Room.findByIdAndUpdate\<close>.
\<close>

definition joinRoom :: "nat \<Rightarrow> socket \<Rightarrow> string \<Rightarrow> world \<Rightarrow> emit list \<times> world" where
  "joinRoom now sock roomId w =
     (case socket_user sock of
        None \<Rightarrow> ([(ToSocket (socket_id sock), JoinRoomError ''Unauthorized'')], w)
      | Some u \<Rightarrow>
          (let (currentRoom, ur1) = lm_get truthy_str (user_id u) (userRooms w);
               w1 = w\<lparr>userRooms := ur1\<rparr>
           in if currentRoom = Some roomId
              then ([(ToSocket (socket_id sock), JoinRoomSuccess roomId None)], w1)
              else
                (let (es_left, w2) =
                       (if truthy_opt currentRoom
                        then ([(ToRoomExcept (the currentRoom) (socket_id sock),
                                UserLeft (user_id u) (user_name u))],
                              w1\<lparr>userRooms := lm_delete (user_id u) (userRooms w1),
                                 socket_rooms := (socket_rooms w1)(socket_id sock :=
                                    removeAll (the currentRoom) (socket_rooms w1 (socket_id sock)))\<rparr>)
                        else ([], w1))
                 in (es_left, w2\<lparr>tasks := tasks w2 @ [RoomTask sock roomId]\<rparr>))))"

text \<open>
  The handler goes on after \<^verbatim>\<open>await Room.findByIdAndUpdate\<close>: the user is added to the
  participants (\<^verbatim>\<open>$addToSet\<close>); without the room the handler ends with
  \<^verbatim>\<open>joinRoomError\<close>. Then the socket joins the room, the current room is set, the save of
  the join message is started and the handler awaits \<^verbatim>\<open>loadMessages\<close>.
\<close>

definition joinRoom_updated :: "nat \<Rightarrow> socket \<Rightarrow> string \<Rightarrow> world \<Rightarrow> emit list \<times> world" where
  "joinRoom_updated now sock roomId w =
     (case socket_user sock of
        None \<Rightarrow> ([], w)
      | Some u \<Rightarrow>
          (case db_rooms w roomId of
             None \<Rightarrow> ([(ToSocket (socket_id sock), JoinRoomError room_not_found_text)], w)
           | Some ps \<Rightarrow>
               (let participants = (if user_id u \<in> set ps then ps else ps @ [user_id u]);
                    joinMessage = new_Message 0 roomId None (joined_text (user_name u)) ''system'' now
                in ([], w\<lparr>db_rooms := (db_rooms w)(roomId \<mapsto> participants),
                          socket_rooms := (socket_rooms w)(socket_id sock :=
                             roomId # removeAll roomId (socket_rooms w (socket_id sock))),
                          userRooms := lm_set (user_id u) roomId (userRooms w),
                          tasks := tasks w @ [JoinSaveTask roomId joinMessage,
                                              LoadTask sock roomId participants]\<rparr>))))"

text \<open>\<^verbatim>\<open>joinMessage.save().then(savedMessage => io.to(roomId).emit('message', savedMessage))\<close>.\<close>

definition joinRoom_saved :: "string \<Rightarrow> message \<Rightarrow> world \<Rightarrow> emit list \<times> world" where
  "joinRoom_saved roomId joinMessage w =
     (let (saved, w1) = Message_save joinMessage w
      in ([(ToRoom roomId, MessageEvent saved)], w1))"

text \<open>
  The handler goes on after \<^verbatim>\<open>await loadMessages(socket, roomId)\<close>, whose reads of the cache
  and of the store are taken together at this time: the active streams are read and
  \<^verbatim>\<open>joinRoomSuccess\<close> and \<^verbatim>\<open>participantsUpdate\<close> are sent, or \<^verbatim>\<open>joinRoomError\<close> when the load
  has thrown.
\<close>

definition joinRoom_loaded :: "nat \<Rightarrow> socket \<Rightarrow> string \<Rightarrow> string list \<Rightarrow> world \<Rightarrow> emit list \<times> world" where
  "joinRoom_loaded now sock roomId participants w =
     (let (loaded, st1) = loadMessages now sock roomId None BATCH_SIZE (storage w);
          w1 = w\<lparr>storage := st1\<rparr>
      in case loaded of
           Inl e \<Rightarrow> ([(ToSocket (socket_id sock), JoinRoomError (err_message e))], w1)
         | Inr res \<Rightarrow>
             ([(ToSocket (socket_id sock),
                JoinRoomSuccess roomId
                  (Some \<lparr>jp_participants = participants,
                         jp_messages = res_messages res,
                         jp_hasMore = res_hasMore res,
                         jp_oldestTimestamp = res_oldestTimestamp res,
                         jp_activeStreams =
                           filter (\<lambda>s. ss_room s = roomId)
                             (map snd (entries (streamingSessions w1)))\<rparr>)),
               (ToRoom roomId, ParticipantsUpdate participants)], w1))"

section \<open>The force\_login handler\<close>

definition session_end_failed_text :: string where
  "session_end_failed_text = ''session termination failed''"

text \<open>
  The handler of \<^verbatim>\<open>force_login\<close>: nothing without a user; an error event when the token
  does not verify, has no user id or has another user's; otherwise \<^verbatim>\<open>session_ended\<close> with
  reason \<^verbatim>\<open>force_logout\<close> and \<^verbatim>\<open>socket.disconnect(true)\<close>.
\<close>

definition force_login :: "env \<Rightarrow> nat \<Rightarrow> socket \<Rightarrow> string \<Rightarrow> world \<Rightarrow> emit list \<times> world" where
  "force_login ev now sock token w =
     (case socket_user sock of
        None \<Rightarrow> ([], w)
      | Some u \<Rightarrow>
          (case jwt_verify ev token of
             Inl e \<Rightarrow> ([(ToSocket (socket_id sock), ErrorEvent None session_end_failed_text)], w)
           | Inr decoded \<Rightarrow>
               if \<not> truthy_opt decoded \<or> the decoded \<noteq> user_id u
               then ([(ToSocket (socket_id sock), ErrorEvent None session_end_failed_text)], w)
               else
                 (let (es, w1) = socket_close ev now (socket_id sock) (close_reason ev) w
                  in ((ToSocket (socket_id sock), Session_ended ''force_logout'') # es, w1))))"

section \<open>Sending: the chatMessage handler\<close>

text \<open>
  The AI mentions of a text, as the loop over \<^verbatim>\<open>/@(wayneAI|consultingAI)\b/g\<close> collects
  them. A match needs a word boundary after the name. No match can start inside another,
  so the scan goes on at the next character.
\<close>

definition word_char :: "char \<Rightarrow> bool" where
  "word_char c = (c \<in> set ''abcdefghijklmnopqrstuvwxyzABCDEFGHIJKLMNOPQRSTUVWXYZ0123456789_'')"

definition word_boundary :: "string \<Rightarrow> bool" where
  "word_boundary rest = (case rest of [] \<Rightarrow> True | c # _ \<Rightarrow> \<not> word_char c)"

definition mention_at :: "string \<Rightarrow> string option" where
  "mention_at s =
     (if startsWith s ''@wayneAI'' \<and> word_boundary (drop 8 s) then Some ''wayneAI''
      else if startsWith s ''@consultingAI'' \<and> word_boundary (drop 13 s) then Some ''consultingAI''
      else None)"

fun aiMentions :: "string \<Rightarrow> string list" where
  "aiMentions [] = []"
| "aiMentions (c # cs) =
     (case mention_at (c # cs) of
        Some ai \<Rightarrow> ai # aiMentions cs
      | None \<Rightarrow> aiMentions cs)"

text \<open>The AI responses started for the mentions, in order.\<close>

fun start_ai :: "env \<Rightarrow> nat \<Rightarrow> string \<Rightarrow> string list \<Rightarrow> world \<Rightarrow> emit list \<times> world" where
  "start_ai ev now room [] w = ([], w)"
| "start_ai ev now room (ai # ais) w =
     (case handleAIResponse ev now room ai w of
        (sid, es, w1) \<Rightarrow> (let (es', w2) = start_ai ev now room ais w1 in (es @ es', w2)))"

definition content_required_text :: string where
  "content_required_text = ''message content required''"

definition send_failed_text :: string where
  "send_failed_text = ''message send failed''"

text \<open>
  The \<^verbatim>\<open>error\<close> event of the handler's catch block:
  \<^verbatim>\<open>{ code: error.code || 'MESSAGE_ERROR', message: error.message || ... }\<close>.
\<close>

definition message_error :: "js_error \<Rightarrow> event" where
  "message_error e =
     ErrorEvent (Some (if truthy_opt (err_code e) then the (err_code e) else ''MESSAGE_ERROR''))
       (if err_message e = [] then send_failed_text else err_message e)"

text \<open>
  The handler of \<^verbatim>\<open>chatMessage\<close> in four parts. \<open>chatMessage\<close> runs from the event to the
  first await, which is the one inside \<^verbatim>\<open>checkRateLimit\<close> or, after a bucket has decided,
  \<^verbatim>\<open>await newMessage.save()\<close>. \<open>chatMessage_checked\<close> is what the handler does with the
  outcome of a part of \<^verbatim>\<open>checkRateLimit\<close>: a thrown error goes to the catch block, a return
  leads to the message, made with \<^verbatim>\<open>new Date()\<close> at that time, and to the await of its
  save. \<open>chatMessage_saved\<close> is the rest: the message goes to the room and the AI
  responses for the mentions are started, none of them awaited.
\<close>

definition chatMessage_checked ::
  "nat \<Rightarrow> nat \<Rightarrow> socket \<Rightarrow> chat_payload \<Rightarrow> rate_outcome \<times> world \<Rightarrow> emit list \<times> world" where
  "chatMessage_checked t now sock p r =
     (case r of
        (RateDone (Inl e), w) \<Rightarrow> ([(ToSocket (socket_id sock), message_error e)], w)
      | (RateDone (Inr _), w) \<Rightarrow>
          (let newMessage = (new_Message 0 (cp_room p)
                               (map_option user_id (socket_user sock)) (cp_content p)
                               (case cp_type p of Some ty \<Rightarrow> ty | None \<Rightarrow> ''user'') t)
                            \<lparr>msg_file := (if truthy_opt (cp_fileData p) then cp_fileData p
                                           else if truthy_opt (cp_file p) then cp_file p
                                           else None)\<rparr>
           in ([], w\<lparr>tasks := tasks w @ [SaveTask sock p newMessage]\<rparr>))
      | (AwaitIncr, w) \<Rightarrow> ([], w\<lparr>tasks := tasks w @ [IncrTask sock p now]\<rparr>)
      | (AwaitExpire cnt, w) \<Rightarrow> ([], w\<lparr>tasks := tasks w @ [ExpireTask sock p now cnt]\<rparr>))"

definition chatMessage :: "nat \<Rightarrow> socket \<Rightarrow> chat_payload \<Rightarrow> world \<Rightarrow> emit list \<times> world" where
  "chatMessage now sock p w =
     (case socket_user sock of
        None \<Rightarrow> ([(ToSocket (socket_id sock), message_error (new_Error ''Unauthorized''))], w)
      | Some u \<Rightarrow>
          if cp_room p = [] \<or> (cp_content p = [] \<and> \<not> truthy_opt (cp_file p))
          then ([(ToSocket (socket_id sock), message_error (new_Error content_required_text))], w)
          else chatMessage_checked now now sock p (checkRateLimit now (user_id u) w))"

definition chatMessage_saved :: "env \<Rightarrow> nat \<Rightarrow> socket \<Rightarrow> chat_payload \<Rightarrow> message \<Rightarrow> world \<Rightarrow> emit list \<times> world" where
  "chatMessage_saved ev t sock p newMessage w =
     (let (saved, w1) = Message_save newMessage w;
          (es, w2) = start_ai ev t (cp_room p) (aiMentions (cp_content p)) w1
      in ((ToRoom (cp_room p), MessageEvent saved) # es, w2))"

section \<open>Tasks\<close>

text \<open>A task goes on at time \<open>t\<close>.\<close>

definition run_task :: "env \<Rightarrow> nat \<Rightarrow> task \<Rightarrow> world \<Rightarrow> emit list \<times> world" where
  "run_task ev t k w =
     (case k of
        AuthTask socketId userId sessionId \<Rightarrow> auth_finish ev socketId userId sessionId w
      | IncrTask sock p now \<Rightarrow>
          (case socket_user sock of
             None \<Rightarrow> ([], w)
           | Some u \<Rightarrow> chatMessage_checked t now sock p (checkRateLimit_incr t now (user_id u) w))
      | ExpireTask sock p now cnt \<Rightarrow>
          (case socket_user sock of
             None \<Rightarrow> ([], w)
           | Some u \<Rightarrow> chatMessage_checked t now sock p (checkRateLimit_expire t now (user_id u) cnt w))
      | SaveTask sock p newMessage \<Rightarrow> chatMessage_saved ev t sock p newMessage w
      | RoomTask sock roomId \<Rightarrow> joinRoom_updated t sock roomId w
      | JoinSaveTask roomId joinMessage \<Rightarrow> joinRoom_saved roomId joinMessage w
      | LoadTask sock roomId participants \<Rightarrow> joinRoom_loaded t sock roomId participants w
      | AiSaveTask r aiMessage save_ok \<Rightarrow> ai_saved r aiMessage save_ok w)"

text \<open>The promise of the task at place \<open>i\<close> settles: the task leaves the list and goes on.\<close>

definition resume :: "env \<Rightarrow> nat \<Rightarrow> nat \<Rightarrow> world \<Rightarrow> emit list \<times> world" where
  "resume ev t i w =
     (if i < length (tasks w)
      then run_task ev t (tasks w ! i) (w\<lparr>tasks := take i (tasks w) @ drop (Suc i) (tasks w)\<rparr>)
      else ([], w))"

section \<open>The server as a machine\<close>

text \<open>
  What reaches the server, each at a time \<open>now\<close>: a handshake, the close of a client's
  connection during its handshake, the firing of a pre-emption timer, the close of a
  connected socket from outside (the client or the transport) with its reason, the events
  of a connected socket, the settling of the promise a task waits for, and a callback of
  the generator of an AI response that has been started. An event of a socket that is not
  connected has no handler. Any order of inputs is an order in which the server may see
  them.
\<close>

datatype input =
    Connect handshake
  | ClientLeaves string
  | TimerFires string
  | Disconnect string string
  | JoinRoom string string
  | ChatMessage string chat_payload
  | ForceLogin string string
  | Resume nat
  | Callback ai_run callback

definition step :: "env \<Rightarrow> nat \<Rightarrow> input \<Rightarrow> world \<Rightarrow> emit list \<times> world" where
  "step ev now i w =
     (case i of
        Connect hs \<Rightarrow> middleware ev now hs w
      | ClientLeaves socketId \<Rightarrow>
          (case io_sockets w socketId of
             Some sock \<Rightarrow> ([], w) | None \<Rightarrow> ([], w\<lparr>client_left := socketId # client_left w\<rparr>))
      | TimerFires socketId \<Rightarrow> timer_fires ev now socketId w
      | Disconnect socketId reason \<Rightarrow> socket_close ev now socketId reason w
      | JoinRoom socketId roomId \<Rightarrow>
          (case io_sockets w socketId of
             Some sock \<Rightarrow> joinRoom now sock roomId w | None \<Rightarrow> ([], w))
      | ChatMessage socketId p \<Rightarrow>
          (case io_sockets w socketId of
             Some sock \<Rightarrow> chatMessage now sock p w | None \<Rightarrow> ([], w))
      | ForceLogin socketId token \<Rightarrow>
          (case io_sockets w socketId of
             Some sock \<Rightarrow> force_login ev now sock token w | None \<Rightarrow> ([], w))
      | Resume k \<Rightarrow> resume ev now k w
      | Callback r cb \<Rightarrow>
          if r \<in> set (ai_runs w)
          then ai_callback now (run_room r) (run_aiType r) (run_sessionId r) cb w
          else ([], w))"

fun run :: "env \<Rightarrow> (nat \<times> input) list \<Rightarrow> world \<Rightarrow> emit list \<times> world" where
  "run ev [] w = ([], w)"
| "run ev (x # xs) w =
     (let (es, w1) = step ev (fst x) (snd x) w;
          (es', w2) = run ev xs w1
      in (es @ es', w2))"

section \<open>Sequences of sends\<close>

text \<open>
  A send that is alone: a \<^verbatim>\<open>chatMessage\<close> event at \<open>send_time\<close> whose awaits (at most
  three: incr, expire and save) settle at the times \<open>settle1\<close>, \<open>settle2\<close> and \<open>settle3\<close>
  before anything else reaches the server. Its tasks take the place behind the tasks that
  wait already, and a \<open>Resume\<close> of that place does nothing once the handler is through.
\<close>

record send =
  send_time :: nat
  settle1 :: nat
  settle2 :: nat
  settle3 :: nat
  send_payload :: chat_payload

definition send_alone :: "string \<Rightarrow> send \<Rightarrow> world \<Rightarrow> (nat \<times> input) list" where
  "send_alone socketId x w =
     [(send_time x, ChatMessage socketId (send_payload x)),
      (settle1 x, Resume (length (tasks w))),
      (settle2 x, Resume (length (tasks w))),
      (settle3 x, Resume (length (tasks w)))]"

text \<open>
  A sequence of such sends of one socket, with what each send led to; a send is accepted
  when a \<^verbatim>\<open>message\<close> event went out for it; and the number of accepted sends whose
  \<^verbatim>\<open>Date.now()\<close> lies in the window with index \<open>k\<close>.
\<close>

fun run_sends :: "env \<Rightarrow> string \<Rightarrow> send list \<Rightarrow> world \<Rightarrow> emit list list \<times> world" where
  "run_sends ev socketId [] w = ([], w)"
| "run_sends ev socketId (x # xs) w =
     (let (es, w1) = run ev (send_alone socketId x w) w;
          (ess, w2) = run_sends ev socketId xs w1
      in (es # ess, w2))"

definition is_message :: "emit \<Rightarrow> bool" where
  "is_message e = (case snd e of MessageEvent m \<Rightarrow> True | _ \<Rightarrow> False)"

definition accepted :: "emit list \<Rightarrow> bool" where
  "accepted es = list_ex is_message es"

definition accepted_in :: "nat \<Rightarrow> send list \<Rightarrow> emit list list \<Rightarrow> nat" where
  "accepted_in k xs ess =
     length (filter (\<lambda>r. send_time (fst r) div RATE_LIMIT_WINDOW = k \<and> accepted (snd r)) (zip xs ess))"

text \<open>The sends that the cached bucket of a user for a window still allows.\<close>

definition budget :: "world \<Rightarrow> string \<Rightarrow> nat \<Rightarrow> nat" where
  "budget w userId minute =
     (case map_get (userId @ '':'' @ string_of_nat minute) (entries (rateLimitCache w)) of
        Some c \<Rightarrow> RATE_LIMIT_MAX - rl_count c
      | None \<Rightarrow> RATE_LIMIT_MAX)"

section \<open>An environment and a start state for the examples\<close>

text \<open>
  Two tokens verify, for the users \<open>u\<close> and \<open>v\<close>; every session is valid; every user
  is found; the generator is there; Socket.IO reports a close by the server as
  \<^verbatim>\<open>server namespace disconnect\<close>. The start state has one room \<open>r\<close> without
  participants.
\<close>

definition example_env :: env where
  "example_env =
     \<lparr>jwt_verify = (\<lambda>token. if token = ''token-u'' then Inr (Some ''u'')
                              else if token = ''token-v'' then Inr (Some ''v'')
                              else Inl (JsError ''JsonWebTokenError'' ''jwt malformed'' None)),
      validateSession = (\<lambda>userId sessionId. None),
      User_findById = (\<lambda>userId. Some \<lparr>user_id = userId, user_name = userId\<rparr>),
      aiService_available = True,
      close_reason = ''server namespace disconnect''\<rparr>"

definition example_world :: world where
  "example_world = new_world\<lparr>db_rooms := [''r'' \<mapsto> []]\<rparr>"

definition example_socket :: "string \<Rightarrow> string \<Rightarrow> socket" where
  "example_socket socketId userId =
     \<lparr>socket_id = socketId, socket_user = Some \<lparr>user_id = userId, user_name = userId\<rparr>\<rparr>"

text \<open>The state after user \<open>u\<close> has connected with socket \<open>c1\<close>.\<close>

definition example_connected :: world where
  "example_connected =
     snd (run example_env
       [(0, Connect \<lparr>hs_socket = ''c1'', hs_token = Some ''token-u'', hs_sessionId = Some ''s1''\<rparr>),
        (0, Resume 0)] example_world)"

text \<open>
  The state after user \<open>u\<close> has connected with socket \<open>c1\<close> and joined room \<open>r\<close>, every
  await settled at once: the validation of the session, the update of the room, the save
  of the join message and the load of the history.
\<close>

definition example_in_room :: world where
  "example_in_room =
     snd (run example_env
       [(0, Connect \<lparr>hs_socket = ''c1'', hs_token = Some ''token-u'', hs_sessionId = Some ''s1''\<rparr>),
        (0, Resume 0),
        (10, JoinRoom ''c1'' ''r''), (10, Resume 0), (10, Resume 0), (10, Resume 0)] example_world)"


text \<open>
  A state with a stale session. User \<open>u\<close> is connected with \<open>c1\<close>; two more handshakes of
  \<open>u\<close>, for \<open>c2\<close> and \<open>c3\<close>, wait for \<open>c1\<close>; the timer of \<open>c2\<close> closes \<open>c1\<close> and both
  go on, first \<open>c2\<close> and then \<open>c3\<close>, so that both are connected and the registry names
  \<open>c3\<close>; then \<open>c3\<close> joins room \<open>r\<close>.
\<close>

definition example_stale :: world where
  "example_stale =
     snd (run example_env
       [(0, Connect \<lparr>hs_socket = ''c1'', hs_token = Some ''token-u'', hs_sessionId = Some ''s1''\<rparr>),
        (0, Resume 0),
        (1000, Connect \<lparr>hs_socket = ''c2'', hs_token = Some ''token-u'', hs_sessionId = Some ''s2''\<rparr>),
        (2000, Connect \<lparr>hs_socket = ''c3'', hs_token = Some ''token-u'', hs_sessionId = Some ''s3''\<rparr>),
        (9000, TimerFires ''c2''), (9000, Resume 0), (9000, Resume 0),
        (9500, JoinRoom ''c3'' ''r''), (9500, Resume 0), (9500, Resume 0), (9500, Resume 0)] example_world)"

section \<open>Properties of the bounded registry\<close>

lemma length_map_set: "length (map_set k v ps) \<le> Suc (length ps)"
  by (induction ps) auto

lemma length_map_set_ge: "length ps \<le> length (map_set k v ps)"
  by (induction ps) auto

lemma length_map_delete: "length (map_delete k ps) \<le> length ps"
  by (simp add: map_delete_def)

lemma length_map_delete_head: "length (map_delete (fst p) (p # ps)) \<le> length ps"
  by (simp add: map_delete_def)

lemma map_set_fresh: "k \<notin> fst ` set ps \<Longrightarrow> map_set k v ps = ps @ [(k, v)]"
  by (induction ps) auto

lemma map_delete_head_distinct:
  "distinct (map fst (p # ps)) \<Longrightarrow> map_delete (fst p) (p # ps) = ps"
proof -
  assume d: "distinct (map fst (p # ps))"
  then have "\<forall>q \<in> set ps. fst q \<noteq> fst p" by (force simp: image_iff)
  then have "filter (\<lambda>q. fst q \<noteq> fst p) ps = ps" by (simp add: filter_id_conv)
  then show ?thesis by (simp add: map_delete_def)
qed

lemma keys_map_set: "fst ` set (map_set k v ps) = insert k (fst ` set ps)"
  by (induction ps) auto

lemma distinct_map_set: "distinct (map fst ps) \<Longrightarrow> distinct (map fst (map_set k v ps))"
proof (induction ps)
  case Nil
  then show ?case by simp
next
  case (Cons p ps)
  show ?case
  proof (cases "fst p = k")
    case True
    with Cons.prems show ?thesis by simp
  next
    case False
    have "fst p \<notin> fst ` set (map_set k v ps)"
      using Cons.prems False by (simp add: keys_map_set)
    with Cons False show ?thesis by simp
  qed
qed

lemma distinct_map_delete: "distinct (map fst ps) \<Longrightarrow> distinct (map fst (map_delete k ps))"
  by (simp add: map_delete_def distinct_map_filter)

lemma lm_set_size:
  assumes "0 < maxSize m" and "lm_size m \<le> maxSize m"
  shows "lm_size (lm_set k v m) \<le> maxSize m"
proof (cases "lm_size m \<ge> maxSize m")
  case True
  with assms obtain p ps where e: "entries m = p # ps"
    by (cases "entries m") (auto simp: lm_size_def)
  have "length (map_delete (fst p) (p # ps)) \<le> length ps"
    by (rule length_map_delete_head)
  then have "length (map_set k v (map_delete (fst p) (p # ps))) \<le> Suc (length ps)"
    using length_map_set [of k v "map_delete (fst p) (p # ps)"] by linarith
  with True e assms show ?thesis
    by (simp add: lm_set_def lm_size_def)
next
  case False
  then have "Suc (length (entries m)) \<le> maxSize m"
    by (simp add: lm_size_def)
  with False show ?thesis
    using length_map_set [of k v "entries m"] by (simp add: lm_set_def lm_size_def)
qed

lemma lm_set_maxSize [simp]: "maxSize (lm_set k v m) = maxSize m"
  by (simp add: lm_set_def Let_def)

lemma lm_get_entries [simp]: "entries (snd (lm_get t k m)) = entries m"
  by (simp add: lm_get_def Let_def split: option.splits)

lemma lm_get_maxSize [simp]: "maxSize (snd (lm_get t k m)) = maxSize m"
  by (simp add: lm_get_def Let_def split: option.splits)

lemma lm_get_value [simp]: "fst (lm_get t k m) = map_get k (entries m)"
  by (simp add: lm_get_def Let_def)

lemma lm_apply_maxSize [simp]: "maxSize (lm_apply t x m) = maxSize m"
  by (cases x) (simp_all add: lm_delete_def lm_clear_def)

lemma lm_apply_size:
  assumes "0 < maxSize m" and "lm_size m \<le> maxSize m"
  shows "lm_size (lm_apply t x m) \<le> maxSize m"
proof (cases x)
  case (OpSet k v)
  with assms show ?thesis by (simp add: lm_set_size)
next
  case (OpGet k)
  with assms show ?thesis by (simp add: lm_size_def)
next
  case (OpDelete k)
  with assms show ?thesis
    using length_map_delete [of k "entries m"] by (simp add: lm_size_def lm_delete_def)
next
  case OpClear
  then show ?thesis by (simp add: lm_size_def lm_clear_def)
qed

lemma lm_run_maxSize [simp]: "maxSize (lm_run t xs m) = maxSize m"
  by (induction xs arbitrary: m) simp_all

lemma lm_run_size:
  "0 < maxSize m \<Longrightarrow> lm_size m \<le> maxSize m \<Longrightarrow> lm_size (lm_run t xs m) \<le> maxSize m"
proof (induction xs arbitrary: m)
  case Nil
  then show ?case by simp
next
  case (Cons x xs)
  have "lm_size (lm_run t xs (lm_apply t x m)) \<le> maxSize (lm_apply t x m)"
    by (rule Cons.IH) (use Cons.prems in \<open>simp_all add: lm_apply_size\<close>)
  then show ?case by simp
qed

lemma lm_apply_distinct:
  "distinct (lm_keys m) \<Longrightarrow> distinct (lm_keys (lm_apply t x m))"
proof (cases x)
  case (OpSet k v)
  assume d: "distinct (lm_keys m)"
  have "distinct (map fst (case entries m of [] \<Rightarrow> [] | p # _ \<Rightarrow> map_delete (fst p) (entries m)))"
    using d by (cases "entries m") (simp_all add: lm_keys_def distinct_map_delete)
  with d OpSet show ?thesis
    by (simp add: lm_set_def lm_keys_def Let_def distinct_map_set)
next
  case (OpGet k)
  then show "distinct (lm_keys m) \<Longrightarrow> ?thesis" by (simp add: lm_keys_def)
next
  case (OpDelete k)
  then show "distinct (lm_keys m) \<Longrightarrow> ?thesis"
    by (simp add: lm_keys_def lm_delete_def distinct_map_delete)
next
  case OpClear
  then show "distinct (lm_keys m) \<Longrightarrow> ?thesis" by (simp add: lm_keys_def lm_clear_def)
qed

lemma lm_run_distinct:
  "distinct (lm_keys m) \<Longrightarrow> distinct (lm_keys (lm_run t xs m))"
  by (induction xs arbitrary: m) (simp_all add: lm_apply_distinct)

lemma lm_set_evicts_oldest:
  assumes d: "distinct (lm_keys m)" and full: "lm_size m = maxSize m" and pos: "0 < maxSize m"
    and fresh: "k \<notin> set (lm_keys m)"
  shows "\<exists>p ps. entries m = p # ps \<and> entries (lm_set k v m) = ps @ [(k, v)]"
proof -
  from full pos obtain p ps where e: "entries m = p # ps"
    by (cases "entries m") (auto simp: lm_size_def)
  from d e have del: "map_delete (fst p) (p # ps) = ps"
    by (simp add: lm_keys_def map_delete_head_distinct)
  from fresh e have "k \<notin> fst ` set ps" by (auto simp: lm_keys_def)
  then have "map_set k v ps = ps @ [(k, v)]" by (rule map_set_fresh)
  with e del full show ?thesis by (simp add: lm_set_def)
qed

text \<open>
  Claim C4 (as amended). For a LimitedMap created with maximum size N of at least 1, after
  any sequence of set, get, delete and clear calls the size is at most N; and whenever the
  registry reached that way holds N entries, a set of a key it does not hold removes the
  oldest-inserted entry and appends the new one.
\<close>

theorem LimitedMap_size_bounded:
  assumes "0 < N"
  shows "lm_size (lm_run t xs (new_LimitedMap N)) \<le> N \<and>
         (let m = lm_run t xs (new_LimitedMap N)
          in lm_size m = N \<and> k \<notin> set (lm_keys m) \<longrightarrow>
             (\<exists>p ps. entries m = p # ps \<and> entries (lm_set k v m) = ps @ [(k, v)]))"
proof -
  let ?m = "lm_run t xs (new_LimitedMap N) :: ('a, 'b) LimitedMap"
  have m0: "maxSize (new_LimitedMap N :: ('a, 'b) LimitedMap) = N"
    by (simp add: new_LimitedMap_def)
  have s0: "lm_size (new_LimitedMap N :: ('a, 'b) LimitedMap) \<le> N"
    by (simp add: new_LimitedMap_def lm_size_def)
  have d0: "distinct (lm_keys (new_LimitedMap N :: ('a, 'b) LimitedMap))"
    by (simp add: new_LimitedMap_def lm_keys_def)
  have bound: "lm_size ?m \<le> N"
    using lm_run_size [of "new_LimitedMap N" t xs] assms m0 s0 by simp
  have dist: "distinct (lm_keys ?m)"
    using d0 by (rule lm_run_distinct)
  have mx: "maxSize ?m = N" by (simp add: m0)
  have ev: "lm_size ?m = N \<and> k \<notin> set (lm_keys ?m) \<longrightarrow>
            (\<exists>p ps. entries ?m = p # ps \<and> entries (lm_set k v ?m) = ps @ [(k, v)])"
    using lm_set_evicts_oldest [OF dist, of k v] assms mx by auto
  from bound ev show ?thesis by (simp add: Let_def)
qed

theorem LimitedMap_size_bounded_witness:
  "lm_size (lm_run truthy_str [OpSet ''a'' ''1'', OpSet ''b'' ''2'', OpGet ''a'', OpSet ''c'' ''3'']
      (new_LimitedMap 2)) \<le> 2 \<and>
   entries (lm_set ''c'' ''3'' (lm_run truthy_str [OpSet ''a'' ''1'', OpSet ''b'' ''2'', OpGet ''a'']
      (new_LimitedMap 2))) = [(''b'', ''2''), (''c'', ''3'')]"
proof -
  have pos: "(0::nat) < 2" by simp
  have run: "entries (lm_run truthy_str [OpSet ''a'' ''1'', OpSet ''b'' ''2'', OpGet ''a'']
      (new_LimitedMap 2)) = [(''a'', ''1''), (''b'', ''2'')]"
    by (simp add: new_LimitedMap_def lm_set_def lm_size_def map_delete_def)
  have a: "lm_size (lm_run truthy_str [OpSet ''a'' ''1'', OpSet ''b'' ''2'', OpGet ''a'', OpSet ''c'' ''3'']
      (new_LimitedMap 2)) \<le> 2"
    using LimitedMap_size_bounded [OF pos, of truthy_str
        "[OpSet ''a'' ''1'', OpSet ''b'' ''2'', OpGet ''a'', OpSet ''c'' ''3'']"]
    by simp
  have b: "entries (lm_set ''c'' ''3'' (lm_run truthy_str [OpSet ''a'' ''1'', OpSet ''b'' ''2'', OpGet ''a'']
      (new_LimitedMap 2))) = [(''b'', ''2''), (''c'', ''3'')]"
    using LimitedMap_size_bounded [OF pos, of truthy_str
        "[OpSet ''a'' ''1'', OpSet ''b'' ''2'', OpGet ''a'']" "''c''" "''3''"] run
    by (simp add: Let_def lm_size_def lm_keys_def)
  from a b show ?thesis by simp
qed

text \<open>
  With maximum size 0 the eviction finds no key to delete and the inherited set still
  inserts: one set on the new registry leaves one entry.
\<close>

theorem LimitedMap_size_zero_counterexample:
  "\<not> lm_size (lm_run truthy_str [OpSet ''a'' ''1''] (new_LimitedMap 0)) \<le> 0"
  by (simp add: new_LimitedMap_def lm_set_def lm_size_def)

section \<open>Properties of history loading and of the cache boundary\<close>



text \<open>
  When the cache gives nothing usable (no value, a falsy one, or a string that does not
  parse) and the store answers, the result is computed from the store.
\<close>

lemma loadMessages_no_hit_full:
  assumes g: "RedisClient_get now (MessagesKey roomId (truthy_before beforeTs) limit) (redis st) = (c, rc1)"
    and c: "c = None \<or> (\<exists>s. c = Some (JsString (RawText s)))"
    and up: "db_up st"
  shows "loadMessages now sock roomId beforeTs limit st =
         (let sortedMessages = sort_key msg_timestamp
                 (take limit (Message_find roomId beforeTs (limit + 1) (db_messages st)));
              result = \<lparr>res_messages = sortedMessages,
                res_hasMore = (length (Message_find roomId beforeTs (limit + 1) (db_messages st)) > limit),
                res_oldestTimestamp = (case sortedMessages of [] \<Rightarrow> None | m # _ \<Rightarrow> Some (msg_timestamp m))\<rparr>
          in (Inr result,
              st\<lparr>redis := RedisClient_setex now (MessagesKey roomId (truthy_before beforeTs) limit) 30
                           (JsString (JSON_stringify result)) rc1,
                 db_messages := (case socket_user sock of
                             Some u \<Rightarrow>
                               if sortedMessages \<noteq> []
                               then mark_read (map msg_id sortedMessages) (user_id u) (db_messages st)
                               else db_messages st
                           | None \<Rightarrow> db_messages st)\<rparr>))"
proof -
  have hit: "(case c of None \<Rightarrow> None
              | Some c \<Rightarrow> if \<not> truthy_value c then None
                          else (case c of JsObject r \<Rightarrow> Some r | JsString t \<Rightarrow> JSON_parse t)) = None"
    using c by auto
  show ?thesis
    unfolding loadMessages_def g Let_def prod.case hit
    using up by (simp split: option.splits)
qed

lemma loadMessages_no_hit:
  assumes nohit: "fst (RedisClient_get now (MessagesKey roomId (truthy_before beforeTs) limit) (redis st)) = None
       \<or> (\<exists>s. fst (RedisClient_get now (MessagesKey roomId (truthy_before beforeTs) limit) (redis st))
               = Some (JsString (RawText s)))"
    and up: "db_up st"
  shows "fst (loadMessages now sock roomId beforeTs limit st) =
         Inr \<lparr>res_messages = sort_key msg_timestamp
                 (take limit (Message_find roomId beforeTs (limit + 1) (db_messages st))),
              res_hasMore = (length (Message_find roomId beforeTs (limit + 1) (db_messages st)) > limit),
              res_oldestTimestamp =
                (case sort_key msg_timestamp
                   (take limit (Message_find roomId beforeTs (limit + 1) (db_messages st))) of
                   [] \<Rightarrow> None | m # _ \<Rightarrow> Some (msg_timestamp m))\<rparr>"
proof -
  obtain c rc1 where g: "RedisClient_get now (MessagesKey roomId (truthy_before beforeTs) limit) (redis st) = (c, rc1)"
    by (cases "RedisClient_get now (MessagesKey roomId (truthy_before beforeTs) limit) (redis st)")
  with nohit have c: "c = None \<or> (\<exists>s. c = Some (JsString (RawText s)))" by simp
  show ?thesis
    by (simp add: loadMessages_no_hit_full [OF g c up] Let_def)
qed

lemma loadMessages_no_hit_redis:
  assumes g: "RedisClient_get now (MessagesKey roomId (truthy_before beforeTs) limit) (redis st) = (c, rc1)"
    and c: "c = None \<or> (\<exists>s. c = Some (JsString (RawText s)))"
    and up: "db_up st"
    and r: "fst (loadMessages now sock roomId beforeTs limit st) = Inr r"
  shows "redis (snd (loadMessages now sock roomId beforeTs limit st)) =
         RedisClient_setex now (MessagesKey roomId (truthy_before beforeTs) limit) 30
           (JsString (JSON_stringify r)) rc1"
  using r by (simp add: loadMessages_no_hit_full [OF g c up] Let_def)

lemma RedisClient_get_Some_keeps:
  "fst (RedisClient_get now key rc) = Some v \<Longrightarrow> snd (RedisClient_get now key rc) = rc"
  by (auto simp: RedisClient_get_def Mock_get_def new_MockRedisClient_def Let_def
      split: if_splits option.splits prod.splits)






lemma RedisClient_get_Some_active:
  "fst (RedisClient_get now key rc) = Some v \<Longrightarrow> useMock rc \<or> server_up rc"
  by (auto simp: RedisClient_get_def Mock_get_def new_MockRedisClient_def Let_def
      split: if_splits option.splits prod.splits)

lemma RedisClient_setex_stores:
  "map_option item_value
     (store (if useMock (RedisClient_setex now key seconds v rc)
             then mock (RedisClient_setex now key seconds v rc)
             else server (RedisClient_setex now key seconds v rc)) key) = Some (stringValue v)"
  by (simp add: RedisClient_setex_def RedisClient_setEx_def Mock_setEx_def Mock_set_def
      server_setEx_def)

text \<open>
  Claim C6 (as amended). When the cache client returns, for a history key, a string that
  does not decode, the read has deleted nothing (the client is as before); loadMessages
  tests the type of the cached value, fails to parse the string, answers from the durable
  store as on a miss, and overwrites the entry with the JSON text of the fresh result.
  Every write stores a string: the JSON text of an object, a string as it is.
\<close>

theorem cache_read_undecodable:
  assumes got: "fst (RedisClient_get now (MessagesKey roomId (truthy_before beforeTs) limit) (redis st))
                  = Some (JsString (RawText s))"
    and up: "db_up st"
  shows "snd (RedisClient_get now (MessagesKey roomId (truthy_before beforeTs) limit) (redis st)) = redis st \<and>
         (\<exists>r. fst (loadMessages now sock roomId beforeTs limit st) = Inr r \<and>
              res_messages r = sort_key msg_timestamp
                 (take limit (Message_find roomId beforeTs (limit + 1) (db_messages st))) \<and>
              (let rc = redis (snd (loadMessages now sock roomId beforeTs limit st))
               in map_option item_value
                    (store (if useMock rc then mock rc else server rc)
                       (MessagesKey roomId (truthy_before beforeTs) limit)) = Some (JsonText r))) \<and>
         (let rc = RedisClient_setex now key seconds v client
          in map_option item_value (store (if useMock rc then mock rc else server rc) key)
               = Some (case v of JsObject x \<Rightarrow> JSON_stringify x | JsString t \<Rightarrow> t))"
proof -
  let ?key = "MessagesKey roomId (truthy_before beforeTs) limit"
  let ?r = "\<lparr>res_messages = sort_key msg_timestamp
                 (take limit (Message_find roomId beforeTs (limit + 1) (db_messages st))),
              res_hasMore = (length (Message_find roomId beforeTs (limit + 1) (db_messages st)) > limit),
              res_oldestTimestamp =
                (case sort_key msg_timestamp
                   (take limit (Message_find roomId beforeTs (limit + 1) (db_messages st))) of
                   [] \<Rightarrow> None | m # _ \<Rightarrow> Some (msg_timestamp m))\<rparr>"
  have keep: "snd (RedisClient_get now ?key (redis st)) = redis st"
    using got by (rule RedisClient_get_Some_keeps)
  then have g: "RedisClient_get now ?key (redis st) = (Some (JsString (RawText s)), redis st)"
    using got by (simp add: prod_eq_iff)
  have r: "fst (loadMessages now sock roomId beforeTs limit st) = Inr ?r"
    using got up by (intro loadMessages_no_hit) auto
  have rc: "redis (snd (loadMessages now sock roomId beforeTs limit st)) =
            RedisClient_setex now ?key 30 (JsString (JSON_stringify ?r)) (redis st)"
    using g _ up r by (rule loadMessages_no_hit_redis) simp
  have over: "(let rc = redis (snd (loadMessages now sock roomId beforeTs limit st))
               in map_option item_value
                    (store (if useMock rc then mock rc else server rc) ?key) = Some (JsonText ?r))"
    unfolding rc Let_def
    using RedisClient_setex_stores [of now ?key 30 "JsString (JSON_stringify ?r)" "redis st"]
    by (simp add: JSON_stringify_def)
  have wr: "(let rc = RedisClient_setex now key seconds v client
          in map_option item_value (store (if useMock rc then mock rc else server rc) key)
               = Some (case v of JsObject x \<Rightarrow> JSON_stringify x | JsString t \<Rightarrow> t))"
    unfolding Let_def
    using RedisClient_setex_stores [of now key seconds v client] by (cases v) simp_all
  from keep r over wr show ?thesis by simp
qed

theorem cache_read_undecodable_witness:
  "let st = fresh_store\<lparr>redis := RedisClient_setex 0 (MessagesKey ''r'' None 25) 30
                (JsString (RawText ''{oops'')) fresh_redis\<rparr>
   in fst (RedisClient_get 1000 (MessagesKey ''r'' None 25) (redis st)) = Some (JsString (RawText ''{oops'')) \<and>
      db_up st \<and>
      snd (RedisClient_get 1000 (MessagesKey ''r'' None 25) (redis st)) = redis st \<and>
      (\<exists>r. fst (loadMessages 1000 \<lparr>socket_id = ''c1'', socket_user = None\<rparr> ''r'' None 25 st) = Inr r \<and>
           res_messages r = [])"
proof -
  let ?st = "fresh_store\<lparr>redis := RedisClient_setex 0 (MessagesKey ''r'' None 25) 30
                (JsString (RawText ''{oops'')) fresh_redis\<rparr>"
  have tb: "truthy_before None = None" by (simp add: truthy_before_def)
  have got: "fst (RedisClient_get 1000 (MessagesKey ''r'' (truthy_before None) 25) (redis ?st))
               = Some (JsString (RawText ''{oops''))"
    by (simp add: fresh_store_def fresh_redis_def RedisClient_get_def RedisClient_setex_def
        RedisClient_setEx_def server_get_def server_setEx_def new_MockRedisClient_def
        truthy_before_def)
  have up: "db_up ?st" by (simp add: fresh_store_def)
  have db: "db_messages ?st = []" by (simp add: fresh_store_def)
  have th: "snd (RedisClient_get 1000 (MessagesKey ''r'' (truthy_before None) 25) (redis ?st)) = redis ?st \<and>
         (\<exists>r. fst (loadMessages 1000 \<lparr>socket_id = ''c1'', socket_user = None\<rparr> ''r'' None 25 ?st) = Inr r \<and>
              res_messages r = sort_key msg_timestamp
                 (take 25 (Message_find ''r'' None (25 + 1) (db_messages ?st))))"
    using cache_read_undecodable [OF got up,
        where sock = "\<lparr>socket_id = ''c1'', socket_user = None\<rparr>" and key = "UserKey ''u''"
          and seconds = 1 and v = "JsString (RawText [])"
          and client = "fresh_redis :: fetch_result RedisClient"]
    by blast
  have e: "sort_key msg_timestamp (take 25 (Message_find ''r'' None (25 + 1) (db_messages ?st))) = []"
    by (simp add: db Message_find_def)
  from th have th': "snd (RedisClient_get 1000 (MessagesKey ''r'' None 25) (redis ?st)) = redis ?st \<and>
         (\<exists>r. fst (loadMessages 1000 \<lparr>socket_id = ''c1'', socket_user = None\<rparr> ''r'' None 25 ?st) = Inr r \<and>
              res_messages r = [])"
    unfolding e tb .
  from got have got': "fst (RedisClient_get 1000 (MessagesKey ''r'' None 25) (redis ?st))
               = Some (JsString (RawText ''{oops''))"
    unfolding tb .
  show ?thesis
    unfolding Let_def using got' up th' by blast
qed

text \<open>
  An entry whose text does not decode is returned by the cache client as the raw string
  and is still in the cache after the read.
\<close>

theorem cache_read_keeps_entry_counterexample:
  "let rc = RedisClient_setex 0 (MessagesKey ''r'' None 25) 30
              (JsString (RawText ''{oops'')) (fresh_redis :: fetch_result RedisClient)
   in fst (RedisClient_get 1000 (MessagesKey ''r'' None 25) rc) = Some (JsString (RawText ''{oops'')) \<and>
      server_get 1000 (MessagesKey ''r'' None 25)
        (server (snd (RedisClient_get 1000 (MessagesKey ''r'' None 25) rc))) = Some (RawText ''{oops'')"
  by (simp add: fresh_redis_def RedisClient_get_def RedisClient_setex_def
      RedisClient_setEx_def server_get_def server_setEx_def new_MockRedisClient_def Let_def)

section \<open>Properties of connections, rooms and sessions\<close>

lemma map_get_map_delete [simp]: "map_get k (map_delete k es) = None"
  by (induction es) (auto simp: map_get_def map_delete_def)

lemma map_get_map_set [simp]: "map_get k (map_set k v es) = Some v"
  by (induction es) (auto simp: map_get_def)

lemma lm_delete_entries [simp]: "entries (lm_delete k m) = map_delete k (entries m)"
  by (simp add: lm_delete_def)

lemma lm_set_get [simp]: "map_get k (entries (lm_set k v m)) = Some v"
  by (simp add: lm_set_def Let_def)

lemma disconnect_handler_connectedUsers:
  assumes "socket_user sock = Some u"
  shows "entries (connectedUsers (snd (disconnect_handler now sock reason w))) =
          (if map_get (user_id u) (entries (connectedUsers w)) = Some (socket_id sock)
           then map_delete (user_id u) (entries (connectedUsers w))
           else entries (connectedUsers w))"
  using assms
  by (simp add: disconnect_handler_def Let_def split_beta split: option.splits)

lemma disconnect_handler_userRooms:
  assumes "socket_user sock = Some u"
  shows "entries (userRooms (snd (disconnect_handler now sock reason w))) =
          (if truthy_opt (map_get (user_id u) (entries (userRooms w)))
           then map_delete (user_id u) (entries (userRooms w))
           else entries (userRooms w))"
  using assms
  by (simp add: disconnect_handler_def Let_def split_beta split: option.splits)

lemma disconnect_handler_io_sockets [simp]:
  "io_sockets (snd (disconnect_handler now sock reason w)) = io_sockets w"
  by (simp add: disconnect_handler_def Let_def split_beta split: option.splits)

lemma disconnect_handler_pending [simp]:
  "pending (snd (disconnect_handler now sock reason w)) = pending w"
  by (simp add: disconnect_handler_def Let_def split_beta split: option.splits)



lemma connection_io_sockets [simp]:
  "io_sockets (connection sock w) = (io_sockets w)(socket_id sock \<mapsto> sock)"
  by (simp add: connection_def Let_def split_beta split: option.splits)

lemma connection_pending [simp]: "pending (connection sock w) = pending w"
  by (simp add: connection_def Let_def split_beta split: option.splits)

lemma disconnect_handler_tasks [simp]:
  "tasks (snd (disconnect_handler now sock reason w)) = tasks w"
  by (simp add: disconnect_handler_def Let_def split_beta split: option.splits)






lemmas example_defs =
  example_env_def example_world_def example_socket_def new_world_def new_LimitedMap_def
  fresh_store_def fresh_redis_def new_MockRedisClient_def

text \<open>
  The definitions that a run on a given state unfolds. With the weak congruence rules for
  \<open>let\<close> and for pairs a step is worked out before the next one is looked at.
\<close>

lemmas handler_defs =
  run.simps step_def middleware_def handleDuplicateLogin_def auth_finish_def connection_def socket_close_def
  timer_fires_def disconnect_handler_def joinRoom_def joinRoom_updated_def joinRoom_saved_def
  joinRoom_loaded_def force_login_def resume_def run_task_def resolved_def Message_save_def
  lm_get_def lm_set_def lm_delete_def lm_size_def map_get_def map_delete_def
  truthy_opt_def truthy_str_def DUPLICATE_LOGIN_TIMEOUT_def Let_def


lemmas load_defs =
  loadMessages_def RedisClient_get_def RedisClient_setex_def RedisClient_setEx_def
  server_get_def server_setEx_def truthy_before_def Message_find_def query_match_def
  JSON_stringify_def new_Message_def BATCH_SIZE_def joined_text_def mark_read_def

lemma example_connected_state:
  "example_connected = example_world
      \<lparr>connectedUsers := \<lparr>entries = [(''u'', ''c1'')], maxSize = 2000, hitCount = 0, missCount = 2\<rparr>,
        io_sockets := [''c1'' \<mapsto> example_socket ''c1'' ''u'']\<rparr>"
  by (simp add: example_connected_def example_defs handler_defs
      cong: let_weak_cong prod.case_cong_weak)

lemma run_append:
  "run ev (xs @ ys) w =
     (fst (run ev xs w) @ fst (run ev ys (snd (run ev xs w))), snd (run ev ys (snd (run ev xs w))))"
  by (induction xs arbitrary: w) (simp_all add: split_beta)

lemma in_room_from_connected:
  "example_in_room = snd (run example_env
       [(10, JoinRoom ''c1'' ''r''), (10, Resume 0), (10, Resume 0), (10, Resume 0)] example_connected)"
proof -
  have "example_in_room = snd (run example_env
       ([(0, Connect \<lparr>hs_socket = ''c1'', hs_token = Some ''token-u'', hs_sessionId = Some ''s1''\<rparr>),
        (0, Resume 0)] @
       [(10, JoinRoom ''c1'' ''r''), (10, Resume 0), (10, Resume 0), (10, Resume 0)]) example_world)"
    by (simp add: example_in_room_def)
  then show ?thesis
    unfolding run_append snd_conv example_connected_def [symmetric] .
qed

lemma stale_from_connected:
  "example_stale = snd (run example_env
       [(1000, Connect \<lparr>hs_socket = ''c2'', hs_token = Some ''token-u'', hs_sessionId = Some ''s2''\<rparr>),
        (2000, Connect \<lparr>hs_socket = ''c3'', hs_token = Some ''token-u'', hs_sessionId = Some ''s3''\<rparr>),
        (9000, TimerFires ''c2''), (9000, Resume 0), (9000, Resume 0),
        (9500, JoinRoom ''c3'' ''r''), (9500, Resume 0), (9500, Resume 0), (9500, Resume 0)] example_connected)"
proof -
  have "example_stale = snd (run example_env
       ([(0, Connect \<lparr>hs_socket = ''c1'', hs_token = Some ''token-u'', hs_sessionId = Some ''s1''\<rparr>),
        (0, Resume 0)] @
       [(1000, Connect \<lparr>hs_socket = ''c2'', hs_token = Some ''token-u'', hs_sessionId = Some ''s2''\<rparr>),
        (2000, Connect \<lparr>hs_socket = ''c3'', hs_token = Some ''token-u'', hs_sessionId = Some ''s3''\<rparr>),
        (9000, TimerFires ''c2''), (9000, Resume 0), (9000, Resume 0),
        (9500, JoinRoom ''c3'' ''r''), (9500, Resume 0), (9500, Resume 0), (9500, Resume 0)]) example_world)"
    by (simp add: example_stale_def)
  then show ?thesis
    unfolding run_append snd_conv example_connected_def [symmetric] .
qed

lemma example_in_room_state:
  "entries (userRooms example_in_room) = [(''u'', ''r'')]"
  "entries (connectedUsers example_in_room) = [(''u'', ''c1'')]"
  "db_rooms example_in_room ''r'' = Some [''u'']"
  "io_sockets example_in_room ''c1'' = Some (example_socket ''c1'' ''u'')"
  "pending example_in_room = []"
  "tasks example_in_room = []"
  "client_left example_in_room = []"
  "db_messages (storage example_in_room) =
     [(new_Message 0 ''r'' None ''u joined'' ''system'' 10)\<lparr>msg_readers := [''u'']\<rparr>]"
  "ai_runs example_in_room = []"
  "entries (streamingSessions example_in_room) = []"
  by (simp_all add: in_room_from_connected example_connected_state example_defs handler_defs load_defs
      cong: let_weak_cong prod.case_cong_weak)

lemma example_stale_state:
  "entries (connectedUsers example_stale) = [(''u'', ''c3'')]"
  "entries (userRooms example_stale) = [(''u'', ''r'')]"
  "io_sockets example_stale ''c2'' = Some (example_socket ''c2'' ''u'')"
  "io_sockets example_stale ''c3'' = Some (example_socket ''c3'' ''u'')"
  by (simp_all add: stale_from_connected example_connected_state example_defs handler_defs load_defs
      cong: let_weak_cong prod.case_cong_weak)



text \<open>
  Claim C9. On the disconnect of a socket authenticated as user u, the connection registry
  loses the entry of u exactly when it names this socket, while the current room of u is
  deleted whenever there is one; hence, when the registry names another socket c2 for u and
  u has a current room r (the state once a newer session of u has joined r), the disconnect
  of the stale socket leaves the registry naming c2 and erases the current room of u.
\<close>

theorem disconnect_erases_current_room:
  assumes user: "socket_user sock = Some u"
  shows "(let w' = snd (disconnect_handler now sock reason w)
          in entries (connectedUsers w') =
               (if map_get (user_id u) (entries (connectedUsers w)) = Some (socket_id sock)
                then map_delete (user_id u) (entries (connectedUsers w))
                else entries (connectedUsers w)) \<and>
             entries (userRooms w') =
               (if truthy_opt (map_get (user_id u) (entries (userRooms w)))
                then map_delete (user_id u) (entries (userRooms w))
                else entries (userRooms w)) \<and>
             (map_get (user_id u) (entries (connectedUsers w)) = Some c2 \<and> c2 \<noteq> socket_id sock \<and>
              map_get (user_id u) (entries (userRooms w)) = Some r \<and> r \<noteq> [] \<longrightarrow>
                map_get (user_id u) (entries (connectedUsers w')) = Some c2 \<and>
                map_get (user_id u) (entries (userRooms w')) = None))"
  unfolding Let_def
  using disconnect_handler_connectedUsers [OF user, of now reason w]
    disconnect_handler_userRooms [OF user, of now reason w]
  by (auto simp: truthy_opt_def)

theorem disconnect_erases_current_room_witness:
  "let r = step example_env 9900 (Disconnect ''c2'' ''transport close'') example_stale
   in io_sockets example_stale ''c2'' = Some (example_socket ''c2'' ''u'') \<and>
      map_get ''u'' (entries (connectedUsers example_stale)) = Some ''c3'' \<and>
      map_get ''u'' (entries (userRooms example_stale)) = Some ''r'' \<and>
      map_get ''u'' (entries (connectedUsers (snd r))) = Some ''c3'' \<and>
      map_get ''u'' (entries (userRooms (snd r))) = None"
proof -
  let ?s = "example_socket ''c2'' ''u''"
  let ?w1 = "example_stale\<lparr>io_sockets := (io_sockets example_stale)(''c2'' := None),
                           socket_rooms := (socket_rooms example_stale)(''c2'' := [])\<rparr>"
  let ?w' = "snd (disconnect_handler 9900 ?s ''transport close'' ?w1)"
  have user: "socket_user ?s = Some \<lparr>user_id = ''u'', user_name = ''u''\<rparr>"
    by (simp add: example_socket_def)
  have sid: "socket_id ?s = ''c2''"
    by (simp add: example_socket_def)
  have uid: "user_id \<lparr>user_id = ''u'', user_name = ''u''\<rparr> = ''u''" by simp
  have reg: "map_get ''u'' (entries (connectedUsers example_stale)) = Some ''c3''"
    by (simp add: example_stale_state map_get_def)
  have room: "map_get ''u'' (entries (userRooms example_stale)) = Some ''r''"
    by (simp add: example_stale_state map_get_def)
  have reg1: "map_get ''u'' (entries (connectedUsers ?w1)) = Some ''c3''" using reg by simp
  have room1: "map_get ''u'' (entries (userRooms ?w1)) = Some ''r''" using room by simp
  have th: "map_get ''u'' (entries (connectedUsers ?w1)) = Some ''c3'' \<and> ''c3'' \<noteq> ''c2'' \<and>
            map_get ''u'' (entries (userRooms ?w1)) = Some ''r'' \<and> ''r'' \<noteq> [] \<longrightarrow>
            map_get ''u'' (entries (connectedUsers ?w')) = Some ''c3'' \<and>
            map_get ''u'' (entries (userRooms ?w')) = None"
    using disconnect_erases_current_room [OF user, of 9900 "''transport close''" ?w1 "''c3''" "''r''",
        unfolded Let_def sid uid]
    by blast
  have after: "map_get ''u'' (entries (connectedUsers ?w')) = Some ''c3'' \<and>
        map_get ''u'' (entries (userRooms ?w')) = None"
    using th reg1 room1 by simp
  have st: "connectedUsers (snd (step example_env 9900 (Disconnect ''c2'' ''transport close'') example_stale))
              = connectedUsers ?w'"
      "userRooms (snd (step example_env 9900 (Disconnect ''c2'' ''transport close'') example_stale))
              = userRooms ?w'"
    by (simp_all add: step_def socket_close_def example_stale_state Let_def split_beta)
  show ?thesis
    unfolding Let_def st using after reg room by (simp add: example_stale_state)
qed

text \<open>
  Claim C5 says that a session closed because a newer session of the user pre-empted it
  leaves no "<name> disconnected" message and stays among the participants. The handler
  leaves the message out only for the reasons \<^verbatim>\<open>client namespace disconnect\<close> and
  \<^verbatim>\<open>duplicate_login\<close>, and the pre-emption closes the existing socket with
  \<^verbatim>\<open>existingSocket.disconnect(true)\<close>, which gives no reason of its own: the handler sees
  the reason of Socket.IO. Here user u is in room r with socket c1, a handshake of u
  arrives for c2 and the timer fires: c1 is sent duplicate\_login and session\_ended, the
  leave message is saved and sent, and u is pulled from the participants.
\<close>

theorem preempted_session_leaves_room:
  "let r = run example_env
             [(1000, Connect \<lparr>hs_socket = ''c2'', hs_token = Some ''token-u'', hs_sessionId = Some ''s2''\<rparr>),
              (9000, TimerFires ''c2'')] example_in_room
   in db_rooms example_in_room ''r'' = Some [''u''] \<and>
      fst r = [(ToSocket ''c1'', Duplicate_login),
               (ToSocket ''c1'', Session_ended ''duplicate_login''),
               (ToRoom ''r'', MessageEvent (new_Message 1 ''r'' None ''u disconnected'' ''system'' 9000)),
               (ToRoom ''r'', ParticipantsUpdate [])] \<and>
      db_rooms (snd r) ''r'' = Some [] \<and>
      db_messages (storage (snd r)) =
        db_messages (storage example_in_room) @ [new_Message 1 ''r'' None ''u disconnected'' ''system'' 9000]"
  unfolding in_room_from_connected
  by (simp add: example_connected_state example_defs handler_defs load_defs disconnected_text_def
      cong: let_weak_cong prod.case_cong_weak)




lemma socket_close_io_sockets:
  assumes "io_sockets w c = Some sock"
  shows "io_sockets (snd (socket_close ev now c reason w)) c = None"
  using assms by (simp add: socket_close_def Let_def split_beta)

text \<open>
  Claim C10. For a session of user u (a socket whose user has the non-empty id u), a
  force\_login request sends session\_ended with reason force\_logout exactly when the token
  verifies and decodes to the id u, and then the socket is closed (it leaves the connected
  sockets). With a token that does not verify, or one of another user, one error event is
  sent and the state is unchanged. On a socket without a user nothing is sent and the state
  is unchanged.
\<close>

theorem force_login_same_user_only:
  assumes user: "socket_user sock = Some u" and uid: "user_id u \<noteq> []"
  shows "(((ToSocket (socket_id sock), Session_ended ''force_logout'')
            \<in> set (fst (force_login ev now sock token w)))
          = (jwt_verify ev token = Inr (Some (user_id u)))) \<and>
         (jwt_verify ev token = Inr (Some (user_id u)) \<longrightarrow>
            force_login ev now sock token w =
              ((ToSocket (socket_id sock), Session_ended ''force_logout'')
                 # fst (socket_close ev now (socket_id sock) (close_reason ev) w),
               snd (socket_close ev now (socket_id sock) (close_reason ev) w))) \<and>
         (jwt_verify ev token = Inr (Some (user_id u)) \<and> io_sockets w (socket_id sock) = Some sock \<and>
          (\<forall>p \<in> set (pending w). pl_socket p \<noteq> socket_id sock) \<longrightarrow>
            io_sockets (snd (force_login ev now sock token w)) (socket_id sock) = None) \<and>
         (jwt_verify ev token \<noteq> Inr (Some (user_id u)) \<longrightarrow>
            force_login ev now sock token w =
              ([(ToSocket (socket_id sock), ErrorEvent None session_end_failed_text)], w)) \<and>
         force_login ev now (sock\<lparr>socket_user := None\<rparr>) token w = ([], w)"
proof -
  have ok: "force_login ev now sock token w =
              ((ToSocket (socket_id sock), Session_ended ''force_logout'')
                 # fst (socket_close ev now (socket_id sock) (close_reason ev) w),
               snd (socket_close ev now (socket_id sock) (close_reason ev) w))"
    if "jwt_verify ev token = Inr (Some (user_id u))"
    using that user uid by (simp add: force_login_def truthy_opt_def split_beta)
  have bad: "force_login ev now sock token w =
              ([(ToSocket (socket_id sock), ErrorEvent None session_end_failed_text)], w)"
    if "jwt_verify ev token \<noteq> Inr (Some (user_id u))"
  proof (cases "jwt_verify ev token")
    case (Inl e)
    then show ?thesis using user by (simp add: force_login_def)
  next
    case (Inr d)
    with that have "d \<noteq> Some (user_id u)" by simp
    then have "\<not> truthy_opt d \<or> the d \<noteq> user_id u"
      by (cases d) (auto simp: truthy_opt_def)
    with Inr user show ?thesis by (simp add: force_login_def)
  qed
  have iff: "((ToSocket (socket_id sock), Session_ended ''force_logout'')
            \<in> set (fst (force_login ev now sock token w)))
          = (jwt_verify ev token = Inr (Some (user_id u)))"
  proof (cases "jwt_verify ev token = Inr (Some (user_id u))")
    case True
    then show ?thesis by (simp add: ok)
  next
    case False
    then show ?thesis by (simp add: bad)
  qed
  have closed: "io_sockets (snd (force_login ev now sock token w)) (socket_id sock) = None"
    if "jwt_verify ev token = Inr (Some (user_id u))" "io_sockets w (socket_id sock) = Some sock"
       "\<forall>p \<in> set (pending w). pl_socket p \<noteq> socket_id sock"
    using that(1,2) by (simp add: ok socket_close_io_sockets)
  have none: "force_login ev now (sock\<lparr>socket_user := None\<rparr>) token w = ([], w)"
    by (simp add: force_login_def)
  from iff ok bad closed none show ?thesis by blast
qed

theorem force_login_same_user_only_witness:
  "socket_user (example_socket ''c1'' ''u'') = Some \<lparr>user_id = ''u'', user_name = ''u''\<rparr> \<and>
   jwt_verify example_env ''token-u'' = Inr (Some ''u'') \<and>
   jwt_verify example_env ''token-v'' = Inr (Some ''v'') \<and>
   io_sockets example_in_room ''c1'' = Some (example_socket ''c1'' ''u'') \<and>
   hd (fst (force_login example_env 30 (example_socket ''c1'' ''u'') ''token-u'' example_in_room))
     = (ToSocket ''c1'', Session_ended ''force_logout'') \<and>
   io_sockets (snd (force_login example_env 30 (example_socket ''c1'' ''u'') ''token-u'' example_in_room)) ''c1''
     = None \<and>
   force_login example_env 30 (example_socket ''c1'' ''u'') ''token-v'' example_in_room
     = ([(ToSocket ''c1'', ErrorEvent None session_end_failed_text)], example_in_room) \<and>
   force_login example_env 30 (example_socket ''c1'' ''u'') ''bad'' example_in_room
     = ([(ToSocket ''c1'', ErrorEvent None session_end_failed_text)], example_in_room)"
proof -
  let ?u = "\<lparr>user_id = ''u'', user_name = ''u''\<rparr>"
  let ?s = "example_socket ''c1'' ''u''"
  have user: "socket_user ?s = Some ?u" by (simp add: example_socket_def)
  have uid: "user_id ?u \<noteq> []" by simp
  have uid': "user_id ?u = ''u''" by simp
  have sid: "socket_id ?s = ''c1''" by (simp add: example_socket_def)
  have tu: "jwt_verify example_env ''token-u'' = Inr (Some ''u'')" by (simp add: example_env_def)
  have tv: "jwt_verify example_env ''token-v'' = Inr (Some ''v'')" by (simp add: example_env_def)
  have tb: "jwt_verify example_env ''bad'' = Inl (JsError ''JsonWebTokenError'' ''jwt malformed'' None)"
    by (simp add: example_env_def)
  have live: "io_sockets example_in_room ''c1'' = Some ?s" by (simp add: example_in_room_state)
  have np: "\<forall>p \<in> set (pending example_in_room). pl_socket p \<noteq> ''c1''"
    by (simp add: example_in_room_state)
  note T = force_login_same_user_only [OF user uid, unfolded uid' sid]
  have a: "hd (fst (force_login example_env 30 ?s ''token-u'' example_in_room))
     = (ToSocket ''c1'', Session_ended ''force_logout'')"
    using T [where ev = example_env and token = "''token-u''" and now = 30 and w = example_in_room] tu by simp
  have b: "io_sockets (snd (force_login example_env 30 ?s ''token-u'' example_in_room)) ''c1'' = None"
    using T [where ev = example_env and token = "''token-u''" and now = 30 and w = example_in_room] tu live np by blast
  have c: "force_login example_env 30 ?s ''token-v'' example_in_room
     = ([(ToSocket ''c1'', ErrorEvent None session_end_failed_text)], example_in_room)"
    using T [where ev = example_env and token = "''token-v''" and now = 30 and w = example_in_room] tv by simp
  have d: "force_login example_env 30 ?s ''bad'' example_in_room
     = ([(ToSocket ''c1'', ErrorEvent None session_end_failed_text)], example_in_room)"
    using T [where ev = example_env and token = "''bad''" and now = 30 and w = example_in_room] tb by simp
  from user tu tv live a b c d show ?thesis by simp
qed


end
